theory Spec2Isabelle
  imports Main "HOL-Library.Char_ord" "HOL-Library.List_Lexorder"
begin

section \<open>Errors\<close>

text \<open>
  The names of the engine conditions the repositories inspect
  (\<^verbatim>\<open>pqErr.Code.Name()\<close>), as the constants of things.go declare them.
\<close>

definition errDuplicate :: string where "errDuplicate = ''unique_violation''"
definition errFK :: string where "errFK = ''foreign_key_violation''"
definition errInvalid :: string where "errInvalid = ''invalid_text_representation''"
definition errTruncation :: string where "errTruncation = ''string_data_right_truncation''"

text \<open>
  An error value handed back by the \<^verbatim>\<open>Database\<close> interface: a \<^verbatim>\<open>*pq.Error\<close> with the
  name of its code, \<^verbatim>\<open>sql.ErrNoRows\<close>, or any other error value (a driver or connection
  failure), which no type assertion \<^verbatim>\<open>err.(*pq.Error)\<close> accepts.
\<close>

datatype db_error = PqError string | ErrNoRows | OtherError string

text \<open>
  A Go \<^verbatim>\<open>error\<close> returned by a repository method: one of the sentinel errors of package
  \<^verbatim>\<open>things\<close>, an error of \<^verbatim>\<open>encoding/json\<close>, or the engine's own error value passed on as
  it is (\<open>Raw\<close>). The Go \<^verbatim>\<open>nil\<close> error is \<open>None\<close> of \<open>error option\<close>.
\<close>

datatype error =
    ErrMalformedEntity
  | ErrConflict
  | ErrNotFound
  | ErrUnauthorizedAccess
  | ErrScanMetadata
  | ErrJSON
  | Raw db_error

section \<open>Metadata and JSON documents\<close>

text \<open>
  A JSON document is identified with its abstract syntax. Numbers are restricted to
  integers; an object is an association list of its members.
\<close>

datatype json =
    JNull
  | JBool bool
  | JNum int
  | JStr string
  | JArr "json list"
  | JObj "(string \<times> json) list"

text \<open>
  \<^verbatim>\<open>things.Metadata\<close> and \<^verbatim>\<open>dbMetadata\<close> are \<^verbatim>\<open>map[string]interface{}\<close>: \<open>None\<close> is the
  nil map, \<open>Some kvs\<close> a map holding the entries \<open>kvs\<close>.
\<close>

type_synonym metadata = "(string \<times> json) list option"

definition len :: "metadata \<Rightarrow> nat" where
  "len m = (case m of None \<Rightarrow> 0 | Some kvs \<Rightarrow> length kvs)"

text \<open>
  \<^verbatim>\<open>json.Marshal\<close> of a map: the nil map gives \<^verbatim>\<open>null\<close>, any other map the object of
  its entries. On the values of type \<open>json\<close> it never fails.
\<close>

definition json_Marshal :: "metadata \<Rightarrow> error + json" where
  "json_Marshal m = (case m of None \<Rightarrow> Inr JNull | Some kvs \<Rightarrow> Inr (JObj kvs))"

text \<open>
  \<^verbatim>\<open>json.Unmarshal(b, &m)\<close> into a map variable holding \<open>m\<close>: \<^verbatim>\<open>null\<close> leaves the
  variable as it is, an object is stored into the map (a nil map is allocated first, so
  the outcome is never nil; members are added to those already there, a later member
  replacing an earlier one of the same name), and every other document is an error.
\<close>

fun store_members :: "(string \<times> json) list \<Rightarrow> (string \<times> json) list \<Rightarrow> (string \<times> json) list" where
  "store_members acc [] = acc"
| "store_members acc ((k, v) # kvs) =
     store_members (if list_ex (\<lambda>p. fst p = k) acc
                    then map (\<lambda>p. if fst p = k then (k, v) else p) acc
                    else acc @ [(k, v)]) kvs"

definition json_Unmarshal :: "json \<Rightarrow> metadata \<Rightarrow> error + metadata" where
  "json_Unmarshal doc m =
     (case doc of
        JNull \<Rightarrow> Inr m
      | JObj kvs \<Rightarrow> Inr (Some (store_members (case m of None \<Rightarrow> [] | Some old \<Rightarrow> old) kvs))
      | _ \<Rightarrow> Inl ErrJSON)"

section \<open>Domain and row types\<close>

record Thing =
  thing_ID :: string
  thing_Owner :: string
  thing_Name :: string
  thing_Key :: string
  thing_Metadata :: metadata

record Channel =
  channel_ID :: string
  channel_Owner :: string
  channel_Name :: string
  channel_Metadata :: metadata

text \<open>
  \<^verbatim>\<open>dbThing\<close>: the field \<^verbatim>\<open>Metadata []byte\<close> holds a JSON document, \<open>None\<close> being the nil
  slice (which the driver stores as, and reads from, SQL NULL).
\<close>

record dbThing =
  dbth_ID :: string
  dbth_Owner :: string
  dbth_Name :: string
  dbth_Key :: string
  dbth_Metadata :: "json option"

record dbChannel =
  dbch_ID :: string
  dbch_Owner :: string
  dbch_Name :: string
  dbch_Metadata :: metadata

record dbConnection =
  conn_Channel :: string
  conn_Thing :: string
  conn_Owner :: string

text \<open>
  The \<^verbatim>\<open>uint64\<close> fields of a page are natural numbers: the methods copy and compare
  them, and never compute with them.
\<close>

record PageMetadata =
  Total :: nat
  Offset :: nat
  Limit :: nat

record ThingsPage = PageMetadata +
  Things :: "Thing list"

record ChannelsPage = PageMetadata +
  Channels :: "Channel list"

text \<open>The zero values \<^verbatim>\<open>things.Thing{}\<close>, \<^verbatim>\<open>things.ThingsPage{}\<close> and so on.\<close>

definition empty_Thing :: Thing where
  "empty_Thing = \<lparr>thing_ID = [], thing_Owner = [], thing_Name = [], thing_Key = [],
                   thing_Metadata = None\<rparr>"

definition empty_Channel :: Channel where
  "empty_Channel = \<lparr>channel_ID = [], channel_Owner = [], channel_Name = [],
                     channel_Metadata = None\<rparr>"

definition empty_ThingsPage :: ThingsPage where
  "empty_ThingsPage = \<lparr>Total = 0, Offset = 0, Limit = 0, Things = []\<rparr>"

definition empty_ChannelsPage :: ChannelsPage where
  "empty_ChannelsPage = \<lparr>Total = 0, Offset = 0, Limit = 0, Channels = []\<rparr>"

section \<open>The storage engine\<close>

text \<open>
  Modelled from the spec: the schema is created by the repository's migrations, which
  are not among the sources. Section 6 of the specification gives it as
  \<^verbatim>\<open>things(id PK, owner, name, key UNIQUE, metadata)\<close>,
  \<^verbatim>\<open>channels(id PK, owner, name, metadata)\<close> and
  \<^verbatim>\<open>connections(channel_id FK->channels.id, channel_owner, thing_id FK->things.id,
  thing_owner, PK(channel_id, thing_id))\<close>, both foreign keys with ON DELETE CASCADE.

  A row of \<open>things\<close> has the five columns of \<open>dbThing\<close>. The field \<open>failing\<close> is the
  engine's condition: when it holds an error, every statement is refused with that error
  and changes nothing (a lost connection, or a value the engine's column types reject,
  which the model does not derive from the value itself).
\<close>

record channel_row =
  ch_id :: string
  ch_owner :: string
  ch_name :: string
  ch_metadata :: "json option"

record connection_row =
  channel_id :: string
  channel_owner :: string
  thing_id :: string
  thing_owner :: string

record db =
  things :: "dbThing list"
  channels :: "channel_row list"
  connections :: "connection_row list"
  failing :: "db_error option"

definition empty_db :: db where
  "empty_db = \<lparr>things = [], channels = [], connections = [], failing = None\<rparr>"

text \<open>
  \<^verbatim>\<open>dbMetadata.Value\<close>: the driver value stored for a channel's metadata; \<open>None\<close> is SQL
  NULL.
\<close>

definition dbMetadata_Value :: "metadata \<Rightarrow> error + json option" where
  "dbMetadata_Value m =
     (if len m = 0 then Inr None
      else case json_Marshal m of Inl err \<Rightarrow> Inl err | Inr b \<Rightarrow> Inr (Some b))"

subsection \<open>Statements run through \<^verbatim>\<open>NamedExecContext\<close>\<close>

text \<open>
  One constructor for each statement text of the two repositories, with the struct whose
  fields are bound to its named parameters.
\<close>

datatype exec_stmt =
    InsertThing dbThing
  | UpdateThing dbThing
  | UpdateThingKey dbThing
  | DeleteThing dbThing
  | InsertChannel dbChannel
  | UpdateChannel dbChannel
  | DeleteChannel dbChannel
  | InsertConnection dbConnection
  | DeleteConnection dbConnection

definition thing_matches :: "dbThing \<Rightarrow> dbThing \<Rightarrow> bool" where
  "thing_matches p r = (dbth_ID r = dbth_ID p \<and> dbth_Owner r = dbth_Owner p)"

definition channel_matches :: "dbChannel \<Rightarrow> channel_row \<Rightarrow> bool" where
  "channel_matches p r = (ch_id r = dbch_ID p \<and> ch_owner r = dbch_Owner p)"

definition connection_matches :: "dbConnection \<Rightarrow> connection_row \<Rightarrow> bool" where
  "connection_matches c r =
     (channel_id r = conn_Channel c \<and> channel_owner r = conn_Owner c \<and>
      thing_id r = conn_Thing c \<and> thing_owner r = conn_Owner c)"

text \<open>
  Modelled from the spec: the constraints of \<open>things\<close> (\<^verbatim>\<open>id PK\<close>, \<^verbatim>\<open>key UNIQUE\<close>), whose
  declaration is not among the sources.
  \<^verbatim>\<open>INSERT INTO things (id, owner, name, key, metadata) VALUES (...)\<close>: refused with
  a unique violation when the id or the key is already there.
\<close>

definition insert_thing :: "db \<Rightarrow> dbThing \<Rightarrow> (db_error + nat) \<times> db" where
  "insert_thing d t =
     (if list_ex (\<lambda>r. dbth_ID r = dbth_ID t \<or> dbth_Key r = dbth_Key t) (things d)
      then (Inl (PqError errDuplicate), d)
      else (Inr 1, d\<lparr>things := things d @ [t]\<rparr>))"

text \<open>
  \<^verbatim>\<open>UPDATE things SET name = :name, metadata = :metadata WHERE owner = :owner AND id = :id\<close>
\<close>

definition update_thing :: "db \<Rightarrow> dbThing \<Rightarrow> (db_error + nat) \<times> db" where
  "update_thing d t =
     (Inr (length (filter (thing_matches t) (things d))),
      d\<lparr>things := map (\<lambda>r. if thing_matches t r
                             then r\<lparr>dbth_Name := dbth_Name t, dbth_Metadata := dbth_Metadata t\<rparr>
                             else r) (things d)\<rparr>)"

text \<open>
  Modelled from the spec: the constraint \<^verbatim>\<open>key UNIQUE\<close> of \<open>things\<close>, whose declaration is
  not among the sources.
  \<^verbatim>\<open>UPDATE things SET key = :key WHERE owner = :owner AND id = :id\<close>: refused with a
  unique violation when a row it changes would share its key with another row.
\<close>

definition update_thing_key :: "db \<Rightarrow> dbThing \<Rightarrow> (db_error + nat) \<times> db" where
  "update_thing_key d t =
     (let hit = filter (thing_matches t) (things d);
          rest = filter (\<lambda>r. \<not> thing_matches t r) (things d)
      in if hit \<noteq> [] \<and> (list_ex (\<lambda>r. dbth_Key r = dbth_Key t) rest \<or> 1 < length hit)
         then (Inl (PqError errDuplicate), d)
         else (Inr (length hit),
               d\<lparr>things := map (\<lambda>r. if thing_matches t r then r\<lparr>dbth_Key := dbth_Key t\<rparr>
                                      else r) (things d)\<rparr>))"

text \<open>
  Modelled from the spec: the foreign key \<^verbatim>\<open>thing_id FK->things.id\<close> with its
  \<^verbatim>\<open>ON DELETE CASCADE\<close>, whose declaration is not among the sources.
  \<^verbatim>\<open>DELETE FROM things WHERE id = :id AND owner = :owner\<close>; the connections that
  reference a deleted row go with it.
\<close>

definition delete_thing :: "db \<Rightarrow> dbThing \<Rightarrow> (db_error + nat) \<times> db" where
  "delete_thing d t =
     (let hit = filter (thing_matches t) (things d)
      in (Inr (length hit),
          d\<lparr>things := filter (\<lambda>r. \<not> thing_matches t r) (things d),
            connections := filter (\<lambda>c. \<not> list_ex (\<lambda>r. dbth_ID r = thing_id c) hit)
                                  (connections d)\<rparr>))"

text \<open>
  Modelled from the spec: the constraint \<^verbatim>\<open>id PK\<close> of \<open>channels\<close>, whose declaration is not
  among the sources.
  \<^verbatim>\<open>INSERT INTO channels (id, owner, name, metadata) VALUES (...)\<close>: refused with a
  unique violation when the id is already there. The metadata parameter is what
  \<^verbatim>\<open>dbMetadata.Value\<close> gives, and an error of \<^verbatim>\<open>Value\<close> is the statement's error.
\<close>

definition insert_channel :: "db \<Rightarrow> dbChannel \<Rightarrow> (db_error + nat) \<times> db" where
  "insert_channel d c =
     (case dbMetadata_Value (dbch_Metadata c) of
        Inl err \<Rightarrow> (Inl (OtherError ''json''), d)
      | Inr md \<Rightarrow>
          if list_ex (\<lambda>r. ch_id r = dbch_ID c) (channels d)
          then (Inl (PqError errDuplicate), d)
          else (Inr 1, d\<lparr>channels := channels d @
                  [\<lparr>ch_id = dbch_ID c, ch_owner = dbch_Owner c, ch_name = dbch_Name c,
                    ch_metadata = md\<rparr>]\<rparr>))"

text \<open>
  \<^verbatim>\<open>UPDATE channels SET name = :name, metadata = :metadata WHERE owner = :owner AND id = :id\<close>
\<close>

definition update_channel :: "db \<Rightarrow> dbChannel \<Rightarrow> (db_error + nat) \<times> db" where
  "update_channel d c =
     (case dbMetadata_Value (dbch_Metadata c) of
        Inl err \<Rightarrow> (Inl (OtherError ''json''), d)
      | Inr md \<Rightarrow>
          (Inr (length (filter (channel_matches c) (channels d))),
           d\<lparr>channels := map (\<lambda>r. if channel_matches c r
                                    then r\<lparr>ch_name := dbch_Name c, ch_metadata := md\<rparr>
                                    else r) (channels d)\<rparr>))"

text \<open>
  Modelled from the spec: the foreign key \<^verbatim>\<open>channel_id FK->channels.id\<close> with its
  \<^verbatim>\<open>ON DELETE CASCADE\<close>, whose declaration is not among the sources.
  \<^verbatim>\<open>DELETE FROM channels WHERE id = :id AND owner = :owner\<close>; the connections that
  reference a deleted row go with it.
\<close>

definition delete_channel :: "db \<Rightarrow> dbChannel \<Rightarrow> (db_error + nat) \<times> db" where
  "delete_channel d c =
     (let hit = filter (channel_matches c) (channels d)
      in (Inr (length hit),
          d\<lparr>channels := filter (\<lambda>r. \<not> channel_matches c r) (channels d),
            connections := filter (\<lambda>r. \<not> list_ex (\<lambda>h. ch_id h = channel_id r) hit)
                                  (connections d)\<rparr>))"

text \<open>
  Modelled from the spec: the constraints of \<open>connections\<close> (\<^verbatim>\<open>PK(channel_id, thing_id)\<close>,
  \<^verbatim>\<open>channel_id FK->channels.id\<close>, \<^verbatim>\<open>thing_id FK->things.id\<close>), whose declaration is not
  among the sources.
  \<^verbatim>\<open>INSERT INTO connections (channel_id, channel_owner, thing_id, thing_owner)
  VALUES (:channel, :owner, :thing, :owner)\<close>: refused with a unique violation when the
  pair is already there, and else with a foreign-key violation when no channel or no
  thing has the id (the primary key is checked as the row enters its index, the foreign
  keys once the row is in).
\<close>

definition insert_connection :: "db \<Rightarrow> dbConnection \<Rightarrow> (db_error + nat) \<times> db" where
  "insert_connection d c =
     (if list_ex (\<lambda>r. channel_id r = conn_Channel c \<and> thing_id r = conn_Thing c)
           (connections d)
      then (Inl (PqError errDuplicate), d)
      else if \<not> (list_ex (\<lambda>r. ch_id r = conn_Channel c) (channels d) \<and>
                  list_ex (\<lambda>r. dbth_ID r = conn_Thing c) (things d))
      then (Inl (PqError errFK), d)
      else (Inr 1, d\<lparr>connections := connections d @
              [\<lparr>channel_id = conn_Channel c, channel_owner = conn_Owner c,
                thing_id = conn_Thing c, thing_owner = conn_Owner c\<rparr>]\<rparr>))"

text \<open>
  \<^verbatim>\<open>DELETE FROM connections WHERE channel_id = :channel AND channel_owner = :owner
  AND thing_id = :thing AND thing_owner = :owner\<close>
\<close>

definition delete_connection :: "db \<Rightarrow> dbConnection \<Rightarrow> (db_error + nat) \<times> db" where
  "delete_connection d c =
     (Inr (length (filter (connection_matches c) (connections d))),
      d\<lparr>connections := filter (\<lambda>r. \<not> connection_matches c r) (connections d)\<rparr>)"

text \<open>
  \<^verbatim>\<open>db.NamedExecContext(ctx, q, arg)\<close>: the error, or the count that
  \<^verbatim>\<open>RowsAffected\<close> reports (which does not fail with this driver), and the state
  afterwards.
\<close>

fun run_stmt :: "db \<Rightarrow> exec_stmt \<Rightarrow> (db_error + nat) \<times> db" where
  "run_stmt d (InsertThing t) = insert_thing d t"
| "run_stmt d (UpdateThing t) = update_thing d t"
| "run_stmt d (UpdateThingKey t) = update_thing_key d t"
| "run_stmt d (DeleteThing t) = delete_thing d t"
| "run_stmt d (InsertChannel c) = insert_channel d c"
| "run_stmt d (UpdateChannel c) = update_channel d c"
| "run_stmt d (DeleteChannel c) = delete_channel d c"
| "run_stmt d (InsertConnection c) = insert_connection d c"
| "run_stmt d (DeleteConnection c) = delete_connection d c"

definition NamedExecContext :: "db \<Rightarrow> exec_stmt \<Rightarrow> (db_error + nat) \<times> db" where
  "NamedExecContext d s = (case failing d of Some e \<Rightarrow> (Inl e, d) | None \<Rightarrow> run_stmt d s)"

subsection \<open>Predicates of the queries\<close>

text \<open>
  \<^verbatim>\<open>strings.ToLower\<close> and SQL \<^verbatim>\<open>LOWER\<close>, on the ASCII letters.
\<close>

definition lower_char :: "char \<Rightarrow> char" where
  "lower_char c =
     (case map_of (zip ''ABCDEFGHIJKLMNOPQRSTUVWXYZ'' ''abcdefghijklmnopqrstuvwxyz'') c of
        Some l \<Rightarrow> l
      | None \<Rightarrow> c)"

definition ToLower :: "string \<Rightarrow> string" where
  "ToLower s = map lower_char s"

text \<open>
  SQL \<^verbatim>\<open>s LIKE pattern\<close>: \<^verbatim>\<open>%\<close> stands for any run of characters, \<^verbatim>\<open>_\<close> for one
  character, and a backslash makes the character after it stand for itself.
\<close>

fun sql_like :: "string \<Rightarrow> string \<Rightarrow> bool" where
  "sql_like [] [] = True"
| "sql_like [] (c # cs) = False"
| "sql_like (p # ps) [] = (p = CHR ''%'' \<and> sql_like ps [])"
| "sql_like (p # ps) (c # cs) =
     (if p = CHR ''%'' then sql_like ps (c # cs) \<or> sql_like (p # ps) cs
      else if p = CHR ''_'' then sql_like ps cs
      else if p = CHR 0x5C then (case ps of [] \<Rightarrow> False | q # qs \<Rightarrow> q = c \<and> sql_like qs cs)
      else p = c \<and> sql_like ps cs)"

text \<open>
  The containment operator \<^verbatim>\<open>@>\<close> of the engine's JSON documents: every member of the
  right object is contained in the member of that name on the left, every element of the
  right array in some element of the left, and scalars are contained in their equals.
\<close>

fun jsonb_contains :: "json \<Rightarrow> json \<Rightarrow> bool" where
  "jsonb_contains (JObj kvs) (JObj qs) =
     list_all (\<lambda>q. list_ex (\<lambda>kv. fst kv = fst q \<and> jsonb_contains (snd kv) (snd q)) kvs) qs"
| "jsonb_contains (JArr vs) (JArr qs) =
     list_all (\<lambda>q. list_ex (\<lambda>v. jsonb_contains v q) vs) qs"
| "jsonb_contains a b = (a = b)"

text \<open>
  The two optional fragments of the \<^verbatim>\<open>WHERE\<close> clause. \<open>mq\<close> and \<open>nq\<close> say whether the
  fragment \<^verbatim>\<open>AND metadata @> :metadata\<close>, respectively \<^verbatim>\<open>AND LOWER(name) LIKE :name\<close>,
  is part of the statement text; \<open>m\<close> and \<open>pat\<close> are the values bound to \<^verbatim>\<open>:metadata\<close> and
  \<^verbatim>\<open>:name\<close>. A containment with SQL NULL on either side does not hold.
\<close>

definition metadata_holds :: "bool \<Rightarrow> json option \<Rightarrow> json option \<Rightarrow> bool" where
  "metadata_holds mq m col =
     (if mq
      then (case col of
              None \<Rightarrow> False
            | Some doc \<Rightarrow> (case m of None \<Rightarrow> False | Some q \<Rightarrow> jsonb_contains doc q))
      else True)"

definition name_holds :: "bool \<Rightarrow> string \<Rightarrow> string \<Rightarrow> bool" where
  "name_holds nq pat nm = (if nq then sql_like pat (ToLower nm) else True)"

subsection \<open>Queries\<close>

text \<open>
  Each query answers with the engine's error when the engine is failing. A single-row
  query (\<^verbatim>\<open>QueryRowxContext\<close>) answers \<^verbatim>\<open>sql.ErrNoRows\<close> when nothing matches, and
  with the first matching row otherwise. \<^verbatim>\<open>ORDER BY id\<close> orders the rows by the text of
  their ids.
\<close>

definition first_row :: "'a list \<Rightarrow> db_error + 'a" where
  "first_row rs = (case rs of [] \<Rightarrow> Inl ErrNoRows | r # _ \<Rightarrow> Inr r)"

definition query :: "db \<Rightarrow> 'a \<Rightarrow> db_error + 'a" where
  "query d answer = (case failing d of Some e \<Rightarrow> Inl e | None \<Rightarrow> Inr answer)"

definition query_row :: "db \<Rightarrow> 'a list \<Rightarrow> db_error + 'a" where
  "query_row d rs = (case failing d of Some e \<Rightarrow> Inl e | None \<Rightarrow> first_row rs)"


text \<open>\<^verbatim>\<open>SELECT id FROM things WHERE key = $1\<close>\<close>

definition select_thing_id :: "db \<Rightarrow> string \<Rightarrow> db_error + string" where
  "select_thing_id d k =
     query_row d (map dbth_ID (filter (\<lambda>r. dbth_Key r = k) (things d)))"

text \<open>
  \<^verbatim>\<open>SELECT id, name, key, metadata FROM things WHERE owner = :owner [mq][nq]
  ORDER BY id LIMIT :limit OFFSET :offset\<close>
\<close>

definition select_things ::
  "db \<Rightarrow> bool \<Rightarrow> bool \<Rightarrow> string \<Rightarrow> nat \<Rightarrow> nat \<Rightarrow> string \<Rightarrow> json option \<Rightarrow>
   db_error + dbThing list" where
  "select_things d mq nq owner lim off nm m =
     query d (take lim (drop off (sort_key dbth_ID
       (filter (\<lambda>r. dbth_Owner r = owner \<and> metadata_holds mq m (dbth_Metadata r) \<and>
                     name_holds nq nm (dbth_Name r)) (things d)))))"

text \<open>\<^verbatim>\<open>SELECT COUNT(*) FROM things WHERE owner = $1 [cq]\<close>\<close>

definition count_things :: "db \<Rightarrow> bool \<Rightarrow> string \<Rightarrow> string \<Rightarrow> db_error + nat" where
  "count_things d cq owner nm =
     query d (length (filter (\<lambda>r. dbth_Owner r = owner \<and> name_holds cq nm (dbth_Name r))
                        (things d)))"

text \<open>
  \<^verbatim>\<open>FROM things th INNER JOIN connections co ON th.id = co.thing_id
  WHERE th.owner = :owner AND co.channel_id = :channel\<close>: one row for each pair of a
  thing and a connection of it.
\<close>

definition things_of_channel :: "db \<Rightarrow> string \<Rightarrow> string \<Rightarrow> dbThing list" where
  "things_of_channel d owner chan =
     concat (map (\<lambda>t. map (\<lambda>co. t)
                    (filter (\<lambda>co. thing_id co = dbth_ID t \<and> channel_id co = chan) (connections d)))
               (filter (\<lambda>t. dbth_Owner t = owner) (things d)))"

definition select_things_by_channel ::
  "db \<Rightarrow> string \<Rightarrow> string \<Rightarrow> nat \<Rightarrow> nat \<Rightarrow> db_error + dbThing list" where
  "select_things_by_channel d owner chan lim off =
     query d (take lim (drop off (sort_key dbth_ID (things_of_channel d owner chan))))"

definition count_things_by_channel :: "db \<Rightarrow> string \<Rightarrow> string \<Rightarrow> db_error + nat" where
  "count_things_by_channel d owner chan = query d (length (things_of_channel d owner chan))"

text \<open>\<^verbatim>\<open>SELECT name, metadata FROM channels WHERE id = $1 AND owner = $2\<close>\<close>

definition select_channel :: "db \<Rightarrow> string \<Rightarrow> string \<Rightarrow> db_error + channel_row" where
  "select_channel d ident owner =
     query_row d (filter (\<lambda>r. ch_id r = ident \<and> ch_owner r = owner) (channels d))"

text \<open>
  \<^verbatim>\<open>SELECT id, name, metadata FROM channels WHERE owner = :owner [mq][nq]
  ORDER BY id LIMIT :limit OFFSET :offset\<close>
\<close>

definition select_channels ::
  "db \<Rightarrow> bool \<Rightarrow> bool \<Rightarrow> string \<Rightarrow> nat \<Rightarrow> nat \<Rightarrow> string \<Rightarrow> json option \<Rightarrow>
   db_error + channel_row list" where
  "select_channels d mq nq owner lim off nm m =
     query d (take lim (drop off (sort_key ch_id
       (filter (\<lambda>r. ch_owner r = owner \<and> metadata_holds mq m (ch_metadata r) \<and>
                     name_holds nq nm (ch_name r)) (channels d)))))"

text \<open>\<^verbatim>\<open>SELECT COUNT(*) FROM channels WHERE owner = $1 [cq]\<close>\<close>

definition count_channels :: "db \<Rightarrow> bool \<Rightarrow> string \<Rightarrow> string \<Rightarrow> db_error + nat" where
  "count_channels d cq owner nm =
     query d (length (filter (\<lambda>r. ch_owner r = owner \<and> name_holds cq nm (ch_name r))
                        (channels d)))"

text \<open>
  \<^verbatim>\<open>FROM channels ch INNER JOIN connections co ON ch.id = co.channel_id
  WHERE ch.owner = :owner AND co.thing_id = :thing\<close>
\<close>

definition channels_of_thing :: "db \<Rightarrow> string \<Rightarrow> string \<Rightarrow> channel_row list" where
  "channels_of_thing d owner thing =
     concat (map (\<lambda>c. map (\<lambda>co. c)
                    (filter (\<lambda>co. channel_id co = ch_id c \<and> thing_id co = thing) (connections d)))
               (filter (\<lambda>c. ch_owner c = owner) (channels d)))"

definition select_channels_by_thing ::
  "db \<Rightarrow> string \<Rightarrow> string \<Rightarrow> nat \<Rightarrow> nat \<Rightarrow> db_error + channel_row list" where
  "select_channels_by_thing d owner thing lim off =
     query d (take lim (drop off (sort_key ch_id (channels_of_thing d owner thing))))"

definition count_channels_by_thing :: "db \<Rightarrow> string \<Rightarrow> string \<Rightarrow> db_error + nat" where
  "count_channels_by_thing d owner thing = query d (length (channels_of_thing d owner thing))"

text \<open>
  \<^verbatim>\<open>SELECT EXISTS (SELECT 1 FROM connections WHERE channel_id = $1 AND thing_id = $2)\<close>
\<close>

definition select_exists :: "db \<Rightarrow> string \<Rightarrow> string \<Rightarrow> db_error + bool" where
  "select_exists d chanID thingID =
     query d (list_ex (\<lambda>r. channel_id r = chanID \<and> thing_id r = thingID) (connections d))"

section \<open>The thing repository (things.go)\<close>

text \<open>
  The type assertion \<^verbatim>\<open>pqErr, ok := err.(*pq.Error)\<close> followed by
  \<^verbatim>\<open>pqErr.Code.Name()\<close>: the name when \<open>ok\<close>, \<open>None\<close> otherwise.
\<close>

fun pq_name :: "db_error \<Rightarrow> string option" where
  "pq_name (PqError n) = Some n"
| "pq_name ErrNoRows = None"
| "pq_name (OtherError s) = None"

definition empty_dbThing :: dbThing where
  "empty_dbThing = \<lparr>dbth_ID = [], dbth_Owner = [], dbth_Name = [], dbth_Key = [],
                     dbth_Metadata = None\<rparr>"

definition toDBThing :: "Thing \<Rightarrow> dbThing \<times> error option" where
  "toDBThing th =
     (if 0 < len (thing_Metadata th)
      then (case json_Marshal (thing_Metadata th) of
              Inl err \<Rightarrow> (empty_dbThing, Some err)
            | Inr b \<Rightarrow>
                (\<lparr>dbth_ID = thing_ID th, dbth_Owner = thing_Owner th, dbth_Name = thing_Name th,
                  dbth_Key = thing_Key th, dbth_Metadata = Some b\<rparr>, None))
      else (\<lparr>dbth_ID = thing_ID th, dbth_Owner = thing_Owner th, dbth_Name = thing_Name th,
             dbth_Key = thing_Key th, dbth_Metadata = Some (JObj [])\<rparr>, None))"

text \<open>
  \<^verbatim>\<open>toThing\<close> unmarshals into a nil map variable; the nil slice is no JSON text at all.
\<close>

definition toThing :: "dbThing \<Rightarrow> Thing \<times> error option" where
  "toThing dbth =
     (case (case dbth_Metadata dbth of None \<Rightarrow> Inl ErrJSON | Some b \<Rightarrow> json_Unmarshal b None) of
        Inl err \<Rightarrow> (empty_Thing, Some err)
      | Inr md \<Rightarrow>
          (\<lparr>thing_ID = dbth_ID dbth, thing_Owner = dbth_Owner dbth, thing_Name = dbth_Name dbth,
            thing_Key = dbth_Key dbth, thing_Metadata = md\<rparr>, None))"

definition tr_Save :: "db \<Rightarrow> Thing \<Rightarrow> (string \<times> error option) \<times> db" where
  "tr_Save d thing =
     (case toDBThing thing of
        (dbth, Some err) \<Rightarrow> (([], Some err), d)
      | (dbth, None) \<Rightarrow>
          (case NamedExecContext d (InsertThing dbth) of
             (Inl err, d') \<Rightarrow>
               (case pq_name err of
                  Some n \<Rightarrow>
                    if n = errInvalid \<or> n = errTruncation then (([], Some ErrMalformedEntity), d')
                    else if n = errDuplicate then (([], Some ErrConflict), d')
                    else (([], Some (Raw err)), d')
                | None \<Rightarrow> (([], Some (Raw err)), d'))
           | (Inr res, d') \<Rightarrow> ((dbth_ID dbth, None), d')))"

definition tr_Update :: "db \<Rightarrow> Thing \<Rightarrow> error option \<times> db" where
  "tr_Update d thing =
     (case toDBThing thing of
        (dbth, Some err) \<Rightarrow> (Some err, d)
      | (dbth, None) \<Rightarrow>
          (case NamedExecContext d (UpdateThing dbth) of
             (Inl err, d') \<Rightarrow>
               (case pq_name err of
                  Some n \<Rightarrow>
                    if n = errInvalid \<or> n = errTruncation then (Some ErrMalformedEntity, d')
                    else (Some (Raw err), d')
                | None \<Rightarrow> (Some (Raw err), d'))
           | (Inr cnt, d') \<Rightarrow> if cnt = 0 then (Some ErrNotFound, d') else (None, d')))"

definition tr_UpdateKey :: "db \<Rightarrow> string \<Rightarrow> string \<Rightarrow> string \<Rightarrow> error option \<times> db" where
  "tr_UpdateKey d owner ident k =
     (let dbth = empty_dbThing\<lparr>dbth_ID := ident, dbth_Owner := owner, dbth_Key := k\<rparr>
      in case NamedExecContext d (UpdateThingKey dbth) of
           (Inl err, d') \<Rightarrow>
             (case pq_name err of
                Some n \<Rightarrow>
                  if n = errInvalid then (Some ErrMalformedEntity, d')
                  else if n = errDuplicate then (Some ErrConflict, d')
                  else (Some (Raw err), d')
              | None \<Rightarrow> (Some (Raw err), d'))
         | (Inr cnt, d') \<Rightarrow> if cnt = 0 then (Some ErrNotFound, d') else (None, d'))"


definition tr_RetrieveByKey :: "db \<Rightarrow> string \<Rightarrow> string \<times> error option" where
  "tr_RetrieveByKey d k =
     (case select_thing_id d k of
        Inl err \<Rightarrow> if err = ErrNoRows then ([], Some ErrNotFound) else ([], Some (Raw err))
      | Inr ident \<Rightarrow> (ident, None))"

definition getNameQuery :: "string \<Rightarrow> bool \<times> string" where
  "getNameQuery nm =
     (let name = ToLower nm
      in if name \<noteq> [] then (True, ''%'' @ name @ ''%'') else (False, name))"

text \<open>
  \<^verbatim>\<open>getMetadataQuery\<close>: the bytes, whether the fragment \<^verbatim>\<open>mq\<close> is there, and the error
  (with which the bytes are nil).
\<close>

definition getMetadataQuery :: "metadata \<Rightarrow> json option \<times> bool \<times> error option" where
  "getMetadataQuery m =
     (if 0 < len m
      then (case json_Marshal m of
              Inl err \<Rightarrow> (None, False, Some err)
            | Inr b \<Rightarrow> (Some b, True, None))
      else (Some (JObj []), False, None))"

text \<open>
  The loop over \<^verbatim>\<open>rows.Next()\<close>: each row is scanned into \<^verbatim>\<open>dbThing{Owner: owner}\<close>,
  converted and appended; the first error ends the method.
\<close>

fun scan_things :: "string \<Rightarrow> dbThing list \<Rightarrow> Thing list \<Rightarrow> error + Thing list" where
  "scan_things owner [] items = Inr items"
| "scan_things owner (r # rows) items =
     (case toThing (empty_dbThing\<lparr>dbth_Owner := owner, dbth_ID := dbth_ID r,
                                   dbth_Name := dbth_Name r, dbth_Key := dbth_Key r,
                                   dbth_Metadata := dbth_Metadata r\<rparr>) of
        (th, Some err) \<Rightarrow> Inl err
      | (th, None) \<Rightarrow> scan_things owner rows (items @ [th]))"

definition tr_RetrieveAll ::
  "db \<Rightarrow> string \<Rightarrow> nat \<Rightarrow> nat \<Rightarrow> string \<Rightarrow> metadata \<Rightarrow> ThingsPage \<times> error option" where
  "tr_RetrieveAll d owner offset limit nm md =
     (let nq = fst (getNameQuery nm); name = snd (getNameQuery nm)
      in case getMetadataQuery md of
           (m, mq, Some err) \<Rightarrow> (empty_ThingsPage, Some err)
         | (m, mq, None) \<Rightarrow>
             (case select_things d mq nq owner limit offset name m of
                Inl err \<Rightarrow> (empty_ThingsPage, Some (Raw err))
              | Inr rows \<Rightarrow>
                  (case scan_things owner rows [] of
                     Inl err \<Rightarrow> (empty_ThingsPage, Some err)
                   | Inr items \<Rightarrow>
                       (case count_things d (name \<noteq> []) owner name of
                          Inl err \<Rightarrow> (empty_ThingsPage, Some (Raw err))
                        | Inr cnt \<Rightarrow>
                            (\<lparr>Total = cnt, Offset = offset, Limit = limit, Things = items\<rparr>,
                             None)))))"

text \<open>
  \<^verbatim>\<open>uuid.FromString\<close> belongs to a library outside the repository: the methods that
  call it take, as \<open>FromString\<close>, the set of strings it parses without error.
\<close>

definition tr_RetrieveByChannel ::
  "(string \<Rightarrow> bool) \<Rightarrow> db \<Rightarrow> string \<Rightarrow> string \<Rightarrow> nat \<Rightarrow> nat \<Rightarrow> ThingsPage \<times> error option" where
  "tr_RetrieveByChannel FromString d owner chan offset limit =
     (if \<not> FromString chan then (empty_ThingsPage, Some ErrNotFound)
      else case select_things_by_channel d owner chan limit offset of
             Inl err \<Rightarrow> (empty_ThingsPage, Some (Raw err))
           | Inr rows \<Rightarrow>
               (case scan_things owner rows [] of
                  Inl err \<Rightarrow> (empty_ThingsPage, Some err)
                | Inr items \<Rightarrow>
                    (case count_things_by_channel d owner chan of
                       Inl err \<Rightarrow> (empty_ThingsPage, Some (Raw err))
                     | Inr cnt \<Rightarrow>
                         (\<lparr>Total = cnt, Offset = offset, Limit = limit, Things = items\<rparr>,
                          None))))"

text \<open>\<^verbatim>\<open>Remove\<close> drops both results of \<^verbatim>\<open>NamedExecContext\<close> and returns nil.\<close>

definition tr_Remove :: "db \<Rightarrow> string \<Rightarrow> string \<Rightarrow> error option \<times> db" where
  "tr_Remove d owner ident =
     (let dbth = empty_dbThing\<lparr>dbth_ID := ident, dbth_Owner := owner\<rparr>
      in case NamedExecContext d (DeleteThing dbth) of (res, d') \<Rightarrow> (None, d'))"

section \<open>The channel repository\<close>

definition toDBChannel :: "Channel \<Rightarrow> dbChannel" where
  "toDBChannel ch =
     \<lparr>dbch_ID = channel_ID ch, dbch_Owner = channel_Owner ch, dbch_Name = channel_Name ch,
      dbch_Metadata = channel_Metadata ch\<rparr>"

definition toChannel :: "dbChannel \<Rightarrow> Channel" where
  "toChannel ch =
     \<lparr>channel_ID = dbch_ID ch, channel_Owner = dbch_Owner ch, channel_Name = dbch_Name ch,
      channel_Metadata = dbch_Metadata ch\<rparr>"

definition empty_dbChannel :: dbChannel where
  "empty_dbChannel = \<lparr>dbch_ID = [], dbch_Owner = [], dbch_Name = [], dbch_Metadata = None\<rparr>"

text \<open>
  What the driver hands to a \<^verbatim>\<open>Scanner\<close>: nil for SQL NULL, the bytes of a document, or
  a value of another Go type.
\<close>

datatype driver_Value = VNil | VBytes json | VOther

definition column_Value :: "json option \<Rightarrow> driver_Value" where
  "column_Value col = (case col of None \<Rightarrow> VNil | Some doc \<Rightarrow> VBytes doc)"

text \<open>
  \<^verbatim>\<open>dbMetadata.Scan\<close> on the field holding \<open>m\<close>: its assignments to the receiver \<^verbatim>\<open>m\<close>
  change the local pointer only, so the field changes through \<^verbatim>\<open>json.Unmarshal\<close> alone.
\<close>

definition dbMetadata_Scan :: "driver_Value \<Rightarrow> metadata \<Rightarrow> error + metadata" where
  "dbMetadata_Scan v m =
     (case v of
        VNil \<Rightarrow> Inr m
      | VOther \<Rightarrow> Inl ErrScanMetadata
      | VBytes b \<Rightarrow> json_Unmarshal b m)"

definition cr_Save :: "db \<Rightarrow> Channel \<Rightarrow> (string \<times> error option) \<times> db" where
  "cr_Save d channel =
     (let dbch = toDBChannel channel
      in case NamedExecContext d (InsertChannel dbch) of
           (Inl err, d') \<Rightarrow>
             (case pq_name err of
                Some n \<Rightarrow>
                  if n = errInvalid \<or> n = errTruncation then (([], Some ErrMalformedEntity), d')
                  else (([], Some (Raw err)), d')
              | None \<Rightarrow> (([], Some (Raw err)), d'))
         | (Inr res, d') \<Rightarrow> ((channel_ID channel, None), d'))"

definition cr_Update :: "db \<Rightarrow> Channel \<Rightarrow> error option \<times> db" where
  "cr_Update d channel =
     (let dbch = toDBChannel channel
      in case NamedExecContext d (UpdateChannel dbch) of
           (Inl err, d') \<Rightarrow>
             (case pq_name err of
                Some n \<Rightarrow>
                  if n = errInvalid \<or> n = errTruncation then (Some ErrMalformedEntity, d')
                  else (Some (Raw err), d')
              | None \<Rightarrow> (Some (Raw err), d'))
         | (Inr cnt, d') \<Rightarrow> if cnt = 0 then (Some ErrNotFound, d') else (None, d'))"

definition cr_RetrieveByID :: "db \<Rightarrow> string \<Rightarrow> string \<Rightarrow> Channel \<times> error option" where
  "cr_RetrieveByID d owner ident =
     (let dbch = empty_dbChannel\<lparr>dbch_ID := ident, dbch_Owner := owner\<rparr>
      in case select_channel d ident owner of
           Inl err \<Rightarrow>
             if err = ErrNoRows \<or> pq_name err = Some errInvalid
             then (empty_Channel, Some ErrNotFound)
             else (empty_Channel, Some (Raw err))
         | Inr r \<Rightarrow>
             (case dbMetadata_Scan (column_Value (ch_metadata r)) (dbch_Metadata dbch) of
                Inl err \<Rightarrow> (empty_Channel, Some err)
              | Inr md \<Rightarrow> (toChannel (dbch\<lparr>dbch_Name := ch_name r, dbch_Metadata := md\<rparr>), None)))"

text \<open>The loop over \<^verbatim>\<open>rows.Next()\<close> of the channel queries.\<close>

fun scan_channels :: "string \<Rightarrow> channel_row list \<Rightarrow> Channel list \<Rightarrow> error + Channel list" where
  "scan_channels owner [] items = Inr items"
| "scan_channels owner (r # rows) items =
     (case dbMetadata_Scan (column_Value (ch_metadata r)) None of
        Inl err \<Rightarrow> Inl err
      | Inr md \<Rightarrow>
          scan_channels owner rows
            (items @ [toChannel (empty_dbChannel\<lparr>dbch_Owner := owner, dbch_ID := ch_id r,
                                                  dbch_Name := ch_name r, dbch_Metadata := md\<rparr>)]))"

definition cr_RetrieveAll ::
  "db \<Rightarrow> string \<Rightarrow> nat \<Rightarrow> nat \<Rightarrow> string \<Rightarrow> metadata \<Rightarrow> ChannelsPage \<times> error option" where
  "cr_RetrieveAll d owner offset limit nm md =
     (let nq = fst (getNameQuery nm); name = snd (getNameQuery nm)
      in case getMetadataQuery md of
           (m, mq, Some err) \<Rightarrow> (empty_ChannelsPage, Some err)
         | (m, mq, None) \<Rightarrow>
             (case select_channels d mq nq owner limit offset name m of
                Inl err \<Rightarrow> (empty_ChannelsPage, Some (Raw err))
              | Inr rows \<Rightarrow>
                  (case scan_channels owner rows [] of
                     Inl err \<Rightarrow> (empty_ChannelsPage, Some err)
                   | Inr items \<Rightarrow>
                       (case count_channels d (name \<noteq> []) owner name of
                          Inl err \<Rightarrow> (empty_ChannelsPage, Some (Raw err))
                        | Inr cnt \<Rightarrow>
                            (\<lparr>Total = cnt, Offset = offset, Limit = limit, Channels = items\<rparr>,
                             None)))))"

definition cr_RetrieveByThing ::
  "(string \<Rightarrow> bool) \<Rightarrow> db \<Rightarrow> string \<Rightarrow> string \<Rightarrow> nat \<Rightarrow> nat \<Rightarrow> ChannelsPage \<times> error option" where
  "cr_RetrieveByThing FromString d owner thing offset limit =
     (if \<not> FromString thing then (empty_ChannelsPage, Some ErrNotFound)
      else case select_channels_by_thing d owner thing limit offset of
             Inl err \<Rightarrow> (empty_ChannelsPage, Some (Raw err))
           | Inr rows \<Rightarrow>
               (case scan_channels owner rows [] of
                  Inl err \<Rightarrow> (empty_ChannelsPage, Some err)
                | Inr items \<Rightarrow>
                    (case count_channels_by_thing d owner thing of
                       Inl err \<Rightarrow> (empty_ChannelsPage, Some (Raw err))
                     | Inr cnt \<Rightarrow>
                         (\<lparr>Total = cnt, Offset = offset, Limit = limit, Channels = items\<rparr>,
                          None))))"

definition cr_Remove :: "db \<Rightarrow> string \<Rightarrow> string \<Rightarrow> error option \<times> db" where
  "cr_Remove d owner ident =
     (let dbch = empty_dbChannel\<lparr>dbch_ID := ident, dbch_Owner := owner\<rparr>
      in case NamedExecContext d (DeleteChannel dbch) of (res, d') \<Rightarrow> (None, d'))"

definition cr_Connect :: "db \<Rightarrow> string \<Rightarrow> string \<Rightarrow> string \<Rightarrow> error option \<times> db" where
  "cr_Connect d owner chanID thingID =
     (let conn = \<lparr>conn_Channel = chanID, conn_Thing = thingID, conn_Owner = owner\<rparr>
      in case NamedExecContext d (InsertConnection conn) of
           (Inl err, d') \<Rightarrow>
             if pq_name err = Some errFK then (Some ErrNotFound, d')
             else if pq_name err = Some errDuplicate then (None, d')
             else (Some (Raw err), d')
         | (Inr res, d') \<Rightarrow> (None, d'))"

definition cr_Disconnect :: "db \<Rightarrow> string \<Rightarrow> string \<Rightarrow> string \<Rightarrow> error option \<times> db" where
  "cr_Disconnect d owner chanID thingID =
     (let conn = \<lparr>conn_Channel = chanID, conn_Thing = thingID, conn_Owner = owner\<rparr>
      in case NamedExecContext d (DeleteConnection conn) of
           (Inl err, d') \<Rightarrow> (Some (Raw err), d')
         | (Inr cnt, d') \<Rightarrow> if cnt = 0 then (Some ErrNotFound, d') else (None, d'))"

definition cr_hasThing :: "db \<Rightarrow> string \<Rightarrow> string \<Rightarrow> error option" where
  "cr_hasThing d chanID thingID =
     (case select_exists d chanID thingID of
        Inl err \<Rightarrow> Some (Raw err)
      | Inr ex \<Rightarrow> if \<not> ex then Some ErrUnauthorizedAccess else None)"

definition cr_HasThing :: "db \<Rightarrow> string \<Rightarrow> string \<Rightarrow> string \<times> error option" where
  "cr_HasThing d chanID k =
     (case select_thing_id d k of
        Inl err \<Rightarrow> ([], Some (Raw err))
      | Inr thingID \<Rightarrow>
          (case cr_hasThing d chanID thingID of
             Some err \<Rightarrow> ([], Some err)
           | None \<Rightarrow> (thingID, None)))"

definition cr_HasThingByID :: "db \<Rightarrow> string \<Rightarrow> string \<Rightarrow> error option" where
  "cr_HasThingByID d chanID thingID = cr_hasThing d chanID thingID"

section \<open>Constraints of the schema and the methods that write\<close>

text \<open>
  Modelled from the spec: the constraints the engine keeps on the connections, whose
  declaration is not among the sources: the primary key \<^verbatim>\<open>(channel_id, thing_id)\<close> and the
  two foreign keys.
\<close>

definition connection_key :: "connection_row \<Rightarrow> string \<times> string" where
  "connection_key r = (channel_id r, thing_id r)"

definition connections_unique :: "db \<Rightarrow> bool" where
  "connections_unique d = distinct (map connection_key (connections d))"

definition channel_exists :: "db \<Rightarrow> string \<Rightarrow> bool" where
  "channel_exists d chanID = list_ex (\<lambda>r. ch_id r = chanID) (channels d)"

definition thing_exists :: "db \<Rightarrow> string \<Rightarrow> bool" where
  "thing_exists d thingID = list_ex (\<lambda>r. dbth_ID r = thingID) (things d)"

definition references_hold :: "db \<Rightarrow> bool" where
  "references_hold d =
     list_all (\<lambda>r. channel_exists d (channel_id r) \<and> thing_exists d (thing_id r)) (connections d)"


text \<open>Both owner columns of every connection hold the same owner.\<close>

definition owners_agree :: "db \<Rightarrow> bool" where
  "owners_agree d = list_all (\<lambda>r. channel_owner r = thing_owner r) (connections d)"

text \<open>All constraints of the schema together.\<close>

definition schema_holds :: "db \<Rightarrow> bool" where
  "schema_holds d =
     (distinct (map dbth_ID (things d)) \<and> distinct (map dbth_Key (things d)) \<and>
      distinct (map ch_id (channels d)) \<and> connections_unique d \<and> references_hold d)"

text \<open>
  A call of one of the methods that run a statement through \<^verbatim>\<open>NamedExecContext\<close>, and
  the state it leaves; every other method only reads.
\<close>

datatype operation =
    ThingSave Thing
  | ThingUpdate Thing
  | ThingUpdateKey string string string
  | ThingRemove string string
  | ChannelSave Channel
  | ChannelUpdate Channel
  | ChannelRemove string string
  | Connect string string string
  | Disconnect string string string

fun perform :: "db \<Rightarrow> operation \<Rightarrow> db" where
  "perform d (ThingSave th) = snd (tr_Save d th)"
| "perform d (ThingUpdate th) = snd (tr_Update d th)"
| "perform d (ThingUpdateKey owner ident k) = snd (tr_UpdateKey d owner ident k)"
| "perform d (ThingRemove owner ident) = snd (tr_Remove d owner ident)"
| "perform d (ChannelSave ch) = snd (cr_Save d ch)"
| "perform d (ChannelUpdate ch) = snd (cr_Update d ch)"
| "perform d (ChannelRemove owner ident) = snd (cr_Remove d owner ident)"
| "perform d (Connect owner chanID thingID) = snd (cr_Connect d owner chanID thingID)"
| "perform d (Disconnect owner chanID thingID) = snd (cr_Disconnect d owner chanID thingID)"

text \<open>
  The canonical text of a UUID (\<^verbatim>\<open>6ba7b810-9dad-11d1-80b4-00c04fd430c8\<close>), one choice of
  the strings that \<^verbatim>\<open>uuid.FromString\<close> parses, for the concrete instances below.
\<close>

definition is_hex :: "char \<Rightarrow> bool" where
  "is_hex c = (c \<in> set ''0123456789abcdefABCDEF'')"

definition canonical_uuid :: "string \<Rightarrow> bool" where
  "canonical_uuid s =
     (length s = 36 \<and>
      list_all (\<lambda>i. if i = 8 \<or> i = 13 \<or> i = 18 \<or> i = 23 then s ! i = CHR ''-''
                     else is_hex (s ! i)) [0..<36])"

text \<open>
  The metadata columns hold what the methods write: an object in every row of the
  things, NULL or an object in every row of the channels.
\<close>

fun is_object :: "json option \<Rightarrow> bool" where
  "is_object (Some (JObj kvs)) = True"
| "is_object col = False"

definition documents_ok :: "db \<Rightarrow> bool" where
  "documents_ok d =
     (list_all (\<lambda>r. is_object (dbth_Metadata r)) (things d) \<and>
      list_all (\<lambda>r. ch_metadata r = None \<or> is_object (ch_metadata r)) (channels d))"

section \<open>The filters of \<^verbatim>\<open>RetrieveAll\<close>, as predicates on a row\<close>

text \<open>
  A row passes the name filter \<open>nm\<close> when the filter is empty or the lowered name of the
  row is \<^verbatim>\<open>LIKE\<close> the lowered filter between two \<^verbatim>\<open>%\<close>; it passes the metadata filter
  \<open>kvs\<close> when its document contains the object of these members.
\<close>

definition passes_name :: "string \<Rightarrow> string \<Rightarrow> bool" where
  "passes_name nm s =
     (if ToLower nm = [] then True else sql_like (''%'' @ ToLower nm @ ''%'') (ToLower s))"

definition passes_metadata :: "(string \<times> json) list \<Rightarrow> json option \<Rightarrow> bool" where
  "passes_metadata kvs col =
     (case col of None \<Rightarrow> False | Some doc \<Rightarrow> jsonb_contains doc (JObj kvs))"

section \<open>Concrete states\<close>

definition lamp :: dbThing where
  "lamp = \<lparr>dbth_ID = ''6ba7b810-9dad-11d1-80b4-00c04fd430c1'', dbth_Owner = ''alice'',
           dbth_Name = ''Living-Room'', dbth_Key = ''key-1'',
           dbth_Metadata = Some (JObj [(''a'', JNum 1), (''b'', JStr ''x'')])\<rparr>"

definition fan :: dbThing where
  "fan = \<lparr>dbth_ID = ''6ba7b810-9dad-11d1-80b4-00c04fd430c2'', dbth_Owner = ''alice'',
          dbth_Name = ''Bedroom'', dbth_Key = ''key-2'', dbth_Metadata = Some (JObj [])\<rparr>"

definition hall :: channel_row where
  "hall = \<lparr>ch_id = ''6ba7b810-9dad-11d1-80b4-00c04fd430d1'', ch_owner = ''alice'',
           ch_name = ''Hall'', ch_metadata = Some (JObj [(''a'', JNum 1)])\<rparr>"

definition yard :: channel_row where
  "yard = \<lparr>ch_id = ''6ba7b810-9dad-11d1-80b4-00c04fd430d2'', ch_owner = ''alice'',
           ch_name = ''Yard'', ch_metadata = None\<rparr>"

definition plug :: dbThing where
  "plug = \<lparr>dbth_ID = ''6ba7b810-9dad-11d1-80b4-00c04fd430c9'', dbth_Owner = ''bob'',
           dbth_Name = ''Plug'', dbth_Key = ''key-b'', dbth_Metadata = Some (JObj [])\<rparr>"

definition shed :: channel_row where
  "shed = \<lparr>ch_id = ''6ba7b810-9dad-11d1-80b4-00c04fd430d9'', ch_owner = ''bob'',
           ch_name = ''Shed'', ch_metadata = None\<rparr>"

definition home :: db where
  "home = \<lparr>things = [lamp, fan, plug], channels = [hall, yard, shed], connections = [],
           failing = None\<rparr>"

definition sensor :: Thing where
  "sensor = \<lparr>thing_ID = ''6ba7b810-9dad-11d1-80b4-00c04fd430c3'', thing_Owner = ''alice'',
             thing_Name = ''Sensor'', thing_Key = ''key-3'', thing_Metadata = None\<rparr>"

definition meter :: Thing where
  "meter = \<lparr>thing_ID = ''6ba7b810-9dad-11d1-80b4-00c04fd430c4'', thing_Owner = ''alice'',
            thing_Name = ''Meter'', thing_Key = ''key-4'',
            thing_Metadata = Some [(''unit'', JStr ''kWh''), (''phase'', JNum 3)]\<rparr>"

section \<open>Facts about the engine\<close>

lemma exec_healthy: "failing d = None \<Longrightarrow> NamedExecContext d s = run_stmt d s"
  by (simp add: NamedExecContext_def)

lemma exec_failing: "failing d = Some e \<Longrightarrow> NamedExecContext d s = (Inl e, d)"
  by (simp add: NamedExecContext_def)





text \<open>The state a method leaves is the state its statement leaves.\<close>

lemma tr_Save_state:
  "snd (tr_Save d th) = d \<or> snd (tr_Save d th) = snd (NamedExecContext d (InsertThing (fst (toDBThing th))))"
  by (auto simp: tr_Save_def split: prod.splits option.splits sum.splits)

lemma tr_Update_state:
  "snd (tr_Update d th) = d \<or> snd (tr_Update d th) = snd (NamedExecContext d (UpdateThing (fst (toDBThing th))))"
  by (auto simp: tr_Update_def split: prod.splits option.splits sum.splits)

lemma tr_UpdateKey_state:
  "snd (tr_UpdateKey d owner ident k)
     = snd (NamedExecContext d
              (UpdateThingKey (empty_dbThing\<lparr>dbth_ID := ident, dbth_Owner := owner, dbth_Key := k\<rparr>)))"
  by (auto simp: tr_UpdateKey_def Let_def split: prod.splits option.splits sum.splits)

lemma tr_Remove_state:
  "snd (tr_Remove d owner ident)
     = snd (NamedExecContext d (DeleteThing (empty_dbThing\<lparr>dbth_ID := ident, dbth_Owner := owner\<rparr>)))"
  by (auto simp: tr_Remove_def Let_def split: prod.splits)

lemma cr_Save_state:
  "snd (cr_Save d ch) = snd (NamedExecContext d (InsertChannel (toDBChannel ch)))"
  by (auto simp: cr_Save_def Let_def split: prod.splits option.splits sum.splits)

lemma cr_Update_state:
  "snd (cr_Update d ch) = snd (NamedExecContext d (UpdateChannel (toDBChannel ch)))"
  by (auto simp: cr_Update_def Let_def split: prod.splits option.splits sum.splits)

lemma cr_Remove_state:
  "snd (cr_Remove d owner ident)
     = snd (NamedExecContext d (DeleteChannel (empty_dbChannel\<lparr>dbch_ID := ident, dbch_Owner := owner\<rparr>)))"
  by (auto simp: cr_Remove_def Let_def split: prod.splits)

lemma cr_Connect_state:
  "snd (cr_Connect d owner chanID thingID)
     = snd (NamedExecContext d
              (InsertConnection \<lparr>conn_Channel = chanID, conn_Thing = thingID, conn_Owner = owner\<rparr>))"
  by (auto simp: cr_Connect_def Let_def split: prod.splits sum.splits)

lemma cr_Disconnect_state:
  "snd (cr_Disconnect d owner chanID thingID)
     = snd (NamedExecContext d
              (DeleteConnection \<lparr>conn_Channel = chanID, conn_Thing = thingID, conn_Owner = owner\<rparr>))"
  by (auto simp: cr_Disconnect_def Let_def split: prod.splits sum.splits)

lemma toDBThing_fields:
  "toDBThing T =
     (\<lparr>dbth_ID = thing_ID T, dbth_Owner = thing_Owner T, dbth_Name = thing_Name T,
       dbth_Key = thing_Key T,
       dbth_Metadata = Some (JObj (case thing_Metadata T of None \<Rightarrow> [] | Some kvs \<Rightarrow> kvs))\<rparr>,
      None)"
  by (cases "thing_Metadata T") (auto simp: toDBThing_def len_def json_Marshal_def)

section \<open>The constraints of the schema are kept\<close>

lemma map_key_update:
  "(\<And>x. f (g x) = f x) \<Longrightarrow> map (f \<circ> (\<lambda>r. if P r then g r else r)) xs = map f xs"
  by (induction xs) simp_all

lemma ids_map_update:
  assumes "\<And>x. f (g x) = f x"
  shows "list_ex (\<lambda>r. f r = k) (map (\<lambda>r. if P r then g r else r) xs) = list_ex (\<lambda>r. f r = k) xs"
  using assms by (induction xs) auto

lemma schema_insert_thing:
  assumes "schema_holds d"
  shows "schema_holds (snd (insert_thing d t))"
  using assms
  by (auto simp: schema_holds_def insert_thing_def connections_unique_def references_hold_def
      channel_exists_def thing_exists_def list_ex_iff list_all_iff)

lemma schema_update_thing:
  assumes "schema_holds d"
  shows "schema_holds (snd (update_thing d t))"
  using assms
  by (auto simp: schema_holds_def update_thing_def connections_unique_def references_hold_def
      channel_exists_def thing_exists_def ids_map_update map_key_update list_all_iff)

lemma schema_delete_thing:
  assumes "schema_holds d"
  shows "schema_holds (snd (delete_thing d t))"
  using assms
  by (auto simp: schema_holds_def delete_thing_def Let_def connections_unique_def
      references_hold_def channel_exists_def thing_exists_def list_ex_iff list_all_iff
      distinct_map_filter)

lemma schema_insert_channel:
  assumes "schema_holds d"
  shows "schema_holds (snd (insert_channel d c))"
  using assms
  by (auto simp: schema_holds_def insert_channel_def connections_unique_def references_hold_def
      channel_exists_def thing_exists_def list_ex_iff list_all_iff split: sum.splits)

lemma schema_update_channel:
  assumes "schema_holds d"
  shows "schema_holds (snd (update_channel d c))"
  using assms
  by (auto simp: schema_holds_def update_channel_def connections_unique_def references_hold_def
      channel_exists_def thing_exists_def ids_map_update map_key_update list_all_iff
      split: sum.splits)

lemma schema_delete_channel:
  assumes "schema_holds d"
  shows "schema_holds (snd (delete_channel d c))"
  using assms
  by (auto simp: schema_holds_def delete_channel_def Let_def connections_unique_def
      references_hold_def channel_exists_def thing_exists_def list_ex_iff list_all_iff
      distinct_map_filter)

lemma schema_insert_connection:
  assumes "schema_holds d"
  shows "schema_holds (snd (insert_connection d c))"
  using assms
  by (auto simp: schema_holds_def insert_connection_def connections_unique_def
      references_hold_def channel_exists_def thing_exists_def list_ex_iff list_all_iff
      connection_key_def)

lemma schema_delete_connection:
  assumes "schema_holds d"
  shows "schema_holds (snd (delete_connection d c))"
  using assms
  by (auto simp: schema_holds_def delete_connection_def connections_unique_def
      references_hold_def channel_exists_def thing_exists_def list_all_iff distinct_map_filter)

lemma rekey_keys:
  assumes "\<And>x. f (g x) = k"
  shows "f ` set (map (\<lambda>r. if P r then g r else r) xs) \<subseteq> insert k (f ` set xs)"
  using assms by (induction xs) auto

lemma rekey_none:
  "filter P xs = [] \<Longrightarrow> map (\<lambda>r. if P r then g r else r) xs = xs"
  by (induction xs) (auto split: if_splits)

lemma distinct_rekey:
  assumes "distinct (map f xs)" and "length (filter P xs) \<le> 1"
    and "\<not> list_ex (\<lambda>r. f r = k) (filter (\<lambda>r. \<not> P r) xs)"
    and g: "\<And>x. f (g x) = k"
  shows "distinct (map f (map (\<lambda>r. if P r then g r else r) xs))"
proof -
  define h where "h = (\<lambda>r. if P r then g r else r)"
  have keys: "f ` set (map h ys) \<subseteq> insert k (f ` set ys)" for ys
    unfolding h_def using g by (rule rekey_keys)
  have "distinct (map f (map h xs))"
    using assms(1-3)
  proof (induction xs)
    case Nil
    show ?case by simp
  next
    case (Cons a xs)
    show ?case
    proof (cases "P a")
      case True
      with Cons.prems(2) have none: "filter P xs = []" by simp
      then have same: "map h xs = xs" unfolding h_def by (rule rekey_none)
      have "\<forall>x \<in> set xs. \<not> P x" using none by (simp add: filter_empty_conv)
      with Cons.prems(3) True have "k \<notin> f ` set xs"
        by (auto simp: list_ex_iff)
      moreover have "f (h a) = k" using True by (simp add: h_def g)
      ultimately show ?thesis using Cons.prems(1) same by simp
    next
      case False
      have ih: "distinct (map f (map h xs))"
        using Cons.prems False by (intro Cons.IH) (auto simp: list_ex_iff)
      have "f a \<noteq> k" using Cons.prems(3) False by (auto simp: list_ex_iff)
      moreover have "f a \<notin> f ` set xs" using Cons.prems(1) by simp
      ultimately have "f a \<notin> f ` set (map h xs)"
        using keys [of xs] by blast
      moreover have "h a = a" using False by (simp add: h_def)
      ultimately show ?thesis using ih by (simp add: image_image)
    qed
  qed
  then show ?thesis by (simp only: h_def)
qed

lemma list_ex_key: "list_ex (\<lambda>r. f r = k) xs = (k \<in> set (map f xs))"
  by (auto simp: list_ex_iff)

lemma schema_update_thing_key:
  assumes "schema_holds d"
  shows "schema_holds (snd (update_thing_key d t))"
proof (cases "filter (thing_matches t) (things d) \<noteq> [] \<and>
    (list_ex (\<lambda>r. dbth_Key r = dbth_Key t) (filter (\<lambda>r. \<not> thing_matches t r) (things d)) \<or>
     1 < length (filter (thing_matches t) (things d)))")
  case True
  with assms show ?thesis by (simp add: update_thing_key_def Let_def)
next
  case False
  define new where
    "new = map (\<lambda>r. if thing_matches t r then r\<lparr>dbth_Key := dbth_Key t\<rparr> else r) (things d)"
  have st: "snd (update_thing_key d t) = d\<lparr>things := new\<rparr>"
    using False by (auto simp: update_thing_key_def Let_def new_def)
  have keys: "distinct (map dbth_Key new)"
  proof (cases "filter (thing_matches t) (things d) = []")
    case True
    then have "new = things d" unfolding new_def by (rule rekey_none)
    with assms show ?thesis by (simp add: schema_holds_def)
  next
    case nonempty: False
    with False have a: "length (filter (thing_matches t) (things d)) \<le> 1"
      and b: "\<not> list_ex (\<lambda>r. dbth_Key r = dbth_Key t)
                 (filter (\<lambda>r. \<not> thing_matches t r) (things d))"
      by auto
    have "distinct (map dbth_Key (things d))" using assms by (simp add: schema_holds_def)
    then show ?thesis unfolding new_def using a b by (rule distinct_rekey) simp
  qed
  have ids: "map dbth_ID new = map dbth_ID (things d)"
    unfolding new_def by (induction "things d") simp_all
  have ex: "list_ex (\<lambda>r. dbth_ID r = k) new = list_ex (\<lambda>r. dbth_ID r = k) (things d)" for k
    by (simp only: list_ex_key ids)
  show ?thesis
    using assms keys ids ex
    by (simp add: st schema_holds_def connections_unique_def references_hold_def
        channel_exists_def thing_exists_def)
qed

lemma schema_run_stmt:
  assumes "schema_holds d"
  shows "schema_holds (snd (run_stmt d s))"
  using assms
  by (cases s)
    (simp_all add: schema_insert_thing schema_update_thing schema_update_thing_key
      schema_delete_thing schema_insert_channel schema_update_channel schema_delete_channel
      schema_insert_connection schema_delete_connection)

lemma schema_exec:
  assumes "schema_holds d"
  shows "schema_holds (snd (NamedExecContext d s))"
  using assms by (cases "failing d") (simp_all add: exec_healthy exec_failing schema_run_stmt)

lemma schema_perform:
  assumes "schema_holds d"
  shows "schema_holds (perform d op)"
proof (cases op)
  case (ThingSave th)
  then show ?thesis
    using assms tr_Save_state [of d th] schema_exec [OF assms] by auto
next
  case (ThingUpdate th)
  then show ?thesis
    using assms tr_Update_state [of d th] schema_exec [OF assms] by auto
qed (simp_all add: assms schema_exec tr_UpdateKey_state tr_Remove_state cr_Save_state
      cr_Update_state cr_Remove_state cr_Connect_state cr_Disconnect_state)

lemma schema_reachable: "schema_holds (foldl perform empty_db ops)"
proof -
  have "schema_holds d \<Longrightarrow> schema_holds (foldl perform d ops)" for d
    by (induction ops arbitrary: d) (simp_all add: schema_perform)
  moreover have "schema_holds empty_db"
    by (simp add: schema_holds_def empty_db_def connections_unique_def references_hold_def)
  ultimately show ?thesis .
qed

lemma failing_exec: "failing (snd (NamedExecContext d s)) = failing d"
proof (cases "failing d")
  case (Some e)
  then show ?thesis by (simp add: exec_failing)
next
  case None
  then show ?thesis
    by (cases s)
      (auto simp: exec_healthy insert_thing_def update_thing_def update_thing_key_def
        delete_thing_def insert_channel_def update_channel_def delete_channel_def
        insert_connection_def delete_connection_def Let_def split: sum.splits)
qed

lemma failing_perform: "failing (perform d op) = failing d"
proof (cases op)
  case (ThingSave th)
  then show ?thesis
    using tr_Save_state [of d th] failing_exec [of d "InsertThing (fst (toDBThing th))"] by auto
next
  case (ThingUpdate th)
  then show ?thesis
    using tr_Update_state [of d th] failing_exec [of d "UpdateThing (fst (toDBThing th))"] by auto
qed (simp_all add: failing_exec tr_UpdateKey_state tr_Remove_state cr_Save_state
      cr_Update_state cr_Remove_state cr_Connect_state cr_Disconnect_state)

text \<open>The metadata columns keep holding documents the methods can scan.\<close>

lemma is_object_iff: "is_object col = (\<exists>kvs. col = Some (JObj kvs))"
  by (cases col rule: is_object.cases) simp_all

lemma scan_things_total:
  "list_all (\<lambda>r. is_object (dbth_Metadata r)) rows \<Longrightarrow>
   \<exists>items. scan_things owner rows acc = Inr items"
proof (induction rows arbitrary: acc)
  case Nil
  show ?case by simp
next
  case (Cons r rows)
  from Cons.prems obtain kvs where "dbth_Metadata r = Some (JObj kvs)"
    by (auto simp: is_object_iff)
  moreover from Cons.prems have "list_all (\<lambda>r. is_object (dbth_Metadata r)) rows" by simp
  ultimately show ?case
    using Cons.IH by (simp add: toThing_def json_Unmarshal_def)
qed

lemma scan_channels_total:
  "list_all (\<lambda>r. ch_metadata r = None \<or> is_object (ch_metadata r)) rows \<Longrightarrow>
   \<exists>items. scan_channels owner rows acc = Inr items"
proof (induction rows arbitrary: acc)
  case Nil
  show ?case by simp
next
  case (Cons r rows)
  from Cons.prems have tl: "list_all (\<lambda>r. ch_metadata r = None \<or> is_object (ch_metadata r)) rows"
    by simp
  from Cons.prems consider "ch_metadata r = None" | kvs where "ch_metadata r = Some (JObj kvs)"
    by (auto simp: is_object_iff)
  then show ?case
  proof cases
    case 1
    then show ?thesis
      using Cons.IH [OF tl] by (simp add: dbMetadata_Scan_def column_Value_def)
  next
    case 2
    then show ?thesis
      using Cons.IH [OF tl]
      by (simp add: dbMetadata_Scan_def column_Value_def json_Unmarshal_def)
  qed
qed

lemma documents_thing_stmt:
  assumes "documents_ok d" and "is_object (dbth_Metadata t)"
  shows "documents_ok (snd (NamedExecContext d (InsertThing t)))"
    and "documents_ok (snd (NamedExecContext d (UpdateThing t)))"
  using assms
  by (cases "failing d";
      auto simp: documents_ok_def exec_healthy exec_failing insert_thing_def update_thing_def
        list_all_iff)+

lemma documents_other_stmt:
  assumes "documents_ok d"
  shows "documents_ok (snd (NamedExecContext d (UpdateThingKey t)))"
    and "documents_ok (snd (NamedExecContext d (DeleteThing t)))"
    and "documents_ok (snd (NamedExecContext d (DeleteChannel c)))"
    and "documents_ok (snd (NamedExecContext d (InsertConnection co)))"
    and "documents_ok (snd (NamedExecContext d (DeleteConnection co)))"
  using assms
  by (cases "failing d";
      auto simp: documents_ok_def exec_healthy exec_failing update_thing_key_def
        delete_thing_def delete_channel_def insert_connection_def delete_connection_def
        Let_def list_all_iff)+

lemma value_document:
  "dbMetadata_Value m = Inr col \<Longrightarrow> col = None \<or> is_object col"
  by (cases m) (auto simp: dbMetadata_Value_def len_def json_Marshal_def split: if_splits)

lemma documents_channel_stmt:
  assumes "documents_ok d"
  shows "documents_ok (snd (NamedExecContext d (InsertChannel c)))"
    and "documents_ok (snd (NamedExecContext d (UpdateChannel c)))"
  using assms value_document [of "dbch_Metadata c"]
  by (cases "failing d";
      auto simp: documents_ok_def exec_healthy exec_failing insert_channel_def
        update_channel_def list_all_iff split: sum.splits)+

lemma toDBThing_object: "is_object (dbth_Metadata (fst (toDBThing th)))"
  by (simp add: toDBThing_fields)

lemma documents_perform:
  assumes "documents_ok d"
  shows "documents_ok (perform d op)"
proof (cases op)
  case (ThingSave th)
  then show ?thesis
    using assms tr_Save_state [of d th] documents_thing_stmt(1) [OF assms toDBThing_object]
    by auto
next
  case (ThingUpdate th)
  then show ?thesis
    using assms tr_Update_state [of d th] documents_thing_stmt(2) [OF assms toDBThing_object]
    by auto
qed (simp_all add: assms documents_other_stmt documents_channel_stmt tr_UpdateKey_state
      tr_Remove_state cr_Save_state cr_Update_state cr_Remove_state cr_Connect_state
      cr_Disconnect_state)

lemma documents_reachable: "documents_ok (foldl perform empty_db ops)"
proof -
  have "documents_ok d \<Longrightarrow> documents_ok (foldl perform d ops)" for d
    by (induction ops arbitrary: d) (simp_all add: documents_perform)
  moreover have "documents_ok empty_db"
    by (simp add: documents_ok_def empty_db_def)
  ultimately show ?thesis .
qed

text \<open>
  Every state reached from the empty database by calls of the methods satisfies the
  constraints, holds scannable documents, and its engine runs the statements.
\<close>

lemma reachable_state:
  "failing (foldl perform empty_db ops) = None \<and>
   connections_unique (foldl perform empty_db ops) \<and>
   references_hold (foldl perform empty_db ops) \<and>
   documents_ok (foldl perform empty_db ops)"
proof -
  have "failing (foldl perform d ops) = failing d" for d
    by (induction ops arbitrary: d) (simp_all add: failing_perform)
  then have "failing (foldl perform empty_db ops) = None"
    by (simp add: empty_db_def)
  with schema_reachable [of ops] documents_reachable [of ops] show ?thesis
    by (simp add: schema_holds_def)
qed

section \<open>Connect\<close>












section \<open>RetrieveAll\<close>

lemma name_query_flag: "(snd (getNameQuery nm) \<noteq> []) = fst (getNameQuery nm)"
  by (simp add: getNameQuery_def Let_def)

lemma name_query_holds:
  "name_holds (fst (getNameQuery nm)) (snd (getNameQuery nm)) s = passes_name nm s"
  by (simp add: getNameQuery_def Let_def name_holds_def passes_name_def)

lemma metadata_query_nonempty:
  "kvs \<noteq> [] \<Longrightarrow> getMetadataQuery (Some kvs) = (Some (JObj kvs), True, None)"
  by (simp add: getMetadataQuery_def len_def json_Marshal_def)

lemma metadata_holds_passes:
  "metadata_holds True (Some (JObj kvs)) col = passes_metadata kvs col"
  by (simp add: metadata_holds_def passes_metadata_def split: option.splits)

lemma scan_things_ids:
  "scan_things owner rows acc = Inr items \<Longrightarrow>
   map thing_ID items = map thing_ID acc @ map dbth_ID rows"
proof (induction rows arbitrary: acc)
  case Nil
  then show ?case by simp
next
  case (Cons r rows)
  then show ?case
    by (auto simp: toThing_def split: sum.splits option.splits prod.splits)
qed

lemma scan_channels_ids:
  "scan_channels owner rows acc = Inr items \<Longrightarrow>
   map channel_ID items = map channel_ID acc @ map ch_id rows"
proof (induction rows arbitrary: acc)
  case Nil
  then show ?case by simp
next
  case (Cons r rows)
  then show ?case
    by (auto simp: toChannel_def split: sum.splits)
qed

lemma length_filter_conj_le:
  "length (filter (\<lambda>r. P r \<and> Q r \<and> R r) xs) \<le> length (filter (\<lambda>r. P r \<and> R r) xs)"
  by (induction xs) auto

lemma tr_RetrieveAll_ok:
  assumes "kvs \<noteq> []"
    and "snd (tr_RetrieveAll d owner offset limit nm (Some kvs)) = None"
  shows "Total (fst (tr_RetrieveAll d owner offset limit nm (Some kvs)))
           = length (filter (\<lambda>r. dbth_Owner r = owner \<and> passes_name nm (dbth_Name r)) (things d))"
    and "map thing_ID (Things (fst (tr_RetrieveAll d owner offset limit nm (Some kvs))))
           = map dbth_ID (take limit (drop offset (sort_key dbth_ID
               (filter (\<lambda>r. dbth_Owner r = owner \<and> passes_metadata kvs (dbth_Metadata r) \<and>
                             passes_name nm (dbth_Name r)) (things d)))))"
  using assms
  by (auto simp: tr_RetrieveAll_def metadata_query_nonempty Let_def select_things_def
      count_things_def query_def name_query_flag name_query_holds metadata_holds_passes
      dest: scan_things_ids split: option.splits sum.splits)

lemma cr_RetrieveAll_ok:
  assumes "kvs \<noteq> []"
    and "snd (cr_RetrieveAll d owner offset limit nm (Some kvs)) = None"
  shows "Total (fst (cr_RetrieveAll d owner offset limit nm (Some kvs)))
           = length (filter (\<lambda>r. ch_owner r = owner \<and> passes_name nm (ch_name r)) (channels d))"
    and "map channel_ID (Channels (fst (cr_RetrieveAll d owner offset limit nm (Some kvs))))
           = map ch_id (take limit (drop offset (sort_key ch_id
               (filter (\<lambda>r. ch_owner r = owner \<and> passes_metadata kvs (ch_metadata r) \<and>
                             passes_name nm (ch_name r)) (channels d)))))"
  using assms
  by (auto simp: cr_RetrieveAll_def metadata_query_nonempty Let_def select_channels_def
      count_channels_def query_def name_query_flag name_query_holds metadata_holds_passes
      dest: scan_channels_ids split: option.splits sum.splits)

lemma home_things_page:
  "tr_RetrieveAll home ''alice'' 0 10 [] (Some [(''a'', JNum 1)])
     = (\<lparr>Total = 2, Offset = 0, Limit = 10,
         Things = [\<lparr>thing_ID = dbth_ID lamp, thing_Owner = ''alice'', thing_Name = ''Living-Room'',
                    thing_Key = ''key-1'',
                    thing_Metadata = Some [(''a'', JNum 1), (''b'', JStr ''x'')]\<rparr>]\<rparr>, None)"
  by code_simp

lemma home_channels_page:
  "cr_RetrieveAll home ''alice'' 0 10 [] (Some [(''a'', JNum 1)])
     = (\<lparr>Total = 2, Offset = 0, Limit = 10,
         Channels = [\<lparr>channel_ID = ch_id hall, channel_Owner = ''alice'', channel_Name = ''Hall'',
                      channel_Metadata = Some [(''a'', JNum 1)]\<rparr>]\<rparr>, None)"
  by code_simp

lemma home_things_passing:
  "length (filter (\<lambda>r. dbth_Owner r = ''alice'' \<and> passes_metadata [(''a'', JNum 1)] (dbth_Metadata r) \<and>
                        passes_name [] (dbth_Name r)) (things home)) = 1"
  by code_simp

lemma home_channels_passing:
  "length (filter (\<lambda>r. ch_owner r = ''alice'' \<and> passes_metadata [(''a'', JNum 1)] (ch_metadata r) \<and>
                        passes_name [] (ch_name r)) (channels home)) = 1"
  by code_simp

lemma list_all_page:
  "list_all P xs \<Longrightarrow> list_all P (take n (drop m (sort_key f (filter Q xs))))"
proof -
  have "set (take n (drop m (sort_key f (filter Q xs)))) \<subseteq> set xs"
  proof
    fix x
    assume "x \<in> set (take n (drop m (sort_key f (filter Q xs))))"
    then have "x \<in> set (drop m (sort_key f (filter Q xs)))" by (rule in_set_takeD)
    then have "x \<in> set (sort_key f (filter Q xs))" by (rule in_set_dropD)
    then show "x \<in> set xs" by simp
  qed
  then show "list_all P xs \<Longrightarrow> list_all P (take n (drop m (sort_key f (filter Q xs))))"
    by (auto simp: list_all_iff)
qed

lemma metadata_query_ok: "snd (snd (getMetadataQuery md)) = None"
  by (simp add: getMetadataQuery_def json_Marshal_def split: option.splits)

lemma tr_RetrieveAll_total:
  assumes "failing d = None" and "documents_ok d"
  shows "snd (tr_RetrieveAll d owner offset limit nm md) = None"
proof -
  obtain m mq where q: "getMetadataQuery md = (m, mq, None)"
    using metadata_query_ok [of md] by (cases "getMetadataQuery md") auto
  let ?rows = "take limit (drop offset (sort_key dbth_ID
       (filter (\<lambda>r. dbth_Owner r = owner \<and> metadata_holds mq m (dbth_Metadata r) \<and>
                     name_holds (fst (getNameQuery nm)) (snd (getNameQuery nm)) (dbth_Name r))
          (things d))))"
  have "list_all (\<lambda>r. is_object (dbth_Metadata r)) ?rows"
    using assms(2) unfolding documents_ok_def by (intro list_all_page) simp
  then obtain items where "scan_things owner ?rows [] = Inr items"
    using scan_things_total by blast
  then show ?thesis
    using assms(1)
    by (simp add: tr_RetrieveAll_def q Let_def select_things_def count_things_def query_def)
qed

lemma cr_RetrieveAll_total:
  assumes "failing d = None" and "documents_ok d"
  shows "snd (cr_RetrieveAll d owner offset limit nm md) = None"
proof -
  obtain m mq where q: "getMetadataQuery md = (m, mq, None)"
    using metadata_query_ok [of md] by (cases "getMetadataQuery md") auto
  let ?rows = "take limit (drop offset (sort_key ch_id
       (filter (\<lambda>r. ch_owner r = owner \<and> metadata_holds mq m (ch_metadata r) \<and>
                     name_holds (fst (getNameQuery nm)) (snd (getNameQuery nm)) (ch_name r))
          (channels d))))"
  have "list_all (\<lambda>r. ch_metadata r = None \<or> is_object (ch_metadata r)) ?rows"
    using assms(2) unfolding documents_ok_def by (intro list_all_page) simp
  then obtain items where "scan_channels owner ?rows [] = Inr items"
    using scan_channels_total by blast
  then show ?thesis
    using assms(1)
    by (simp add: cr_RetrieveAll_def q Let_def select_channels_def count_channels_def query_def)
qed

text \<open>
  C3. For a non-empty metadata filter \<open>kvs\<close>, whenever \<open>RetrieveAll\<close> of the things
  returns without error, \<open>Total\<close> is the number of rows that have the owner and pass the
  name filter, whatever their metadata, while the page holds, in the order of their ids,
  the rows between offset and limit of those that pass the metadata filter as well; so
  \<open>Total\<close> is at least the number of rows passing all three. The same holds of the
  channels. Both methods do return without error when the engine runs the statements
  and the metadata columns hold what the methods write (by \<open>reachable_state\<close>, in every
  state reached from the empty database). In the state \<open>home\<close> the total is 2 while one
  row passes the metadata filter, for the things and for the channels.
\<close>

theorem retrieve_all_total:
  assumes "kvs \<noteq> []"
  shows "(snd (tr_RetrieveAll d owner offset limit nm (Some kvs)) = None \<longrightarrow>
            Total (fst (tr_RetrieveAll d owner offset limit nm (Some kvs)))
              = length (filter (\<lambda>r. dbth_Owner r = owner \<and> passes_name nm (dbth_Name r))
                          (things d)) \<and>
            map thing_ID (Things (fst (tr_RetrieveAll d owner offset limit nm (Some kvs))))
              = map dbth_ID (take limit (drop offset (sort_key dbth_ID
                  (filter (\<lambda>r. dbth_Owner r = owner \<and> passes_metadata kvs (dbth_Metadata r) \<and>
                                passes_name nm (dbth_Name r)) (things d))))) \<and>
            length (filter (\<lambda>r. dbth_Owner r = owner \<and> passes_metadata kvs (dbth_Metadata r) \<and>
                                 passes_name nm (dbth_Name r)) (things d))
              \<le> Total (fst (tr_RetrieveAll d owner offset limit nm (Some kvs)))) \<and>
         (snd (cr_RetrieveAll d owner offset limit nm (Some kvs)) = None \<longrightarrow>
            Total (fst (cr_RetrieveAll d owner offset limit nm (Some kvs)))
              = length (filter (\<lambda>r. ch_owner r = owner \<and> passes_name nm (ch_name r))
                          (channels d)) \<and>
            map channel_ID (Channels (fst (cr_RetrieveAll d owner offset limit nm (Some kvs))))
              = map ch_id (take limit (drop offset (sort_key ch_id
                  (filter (\<lambda>r. ch_owner r = owner \<and> passes_metadata kvs (ch_metadata r) \<and>
                                passes_name nm (ch_name r)) (channels d))))) \<and>
            length (filter (\<lambda>r. ch_owner r = owner \<and> passes_metadata kvs (ch_metadata r) \<and>
                                 passes_name nm (ch_name r)) (channels d))
              \<le> Total (fst (cr_RetrieveAll d owner offset limit nm (Some kvs)))) \<and>
         (failing d = None \<and> documents_ok d \<longrightarrow>
            snd (tr_RetrieveAll d owner offset limit nm (Some kvs)) = None \<and>
            snd (cr_RetrieveAll d owner offset limit nm (Some kvs)) = None) \<and>
         length (filter (\<lambda>r. dbth_Owner r = ''alice'' \<and>
                              passes_metadata [(''a'', JNum 1)] (dbth_Metadata r) \<and>
                              passes_name [] (dbth_Name r)) (things home))
           < Total (fst (tr_RetrieveAll home ''alice'' 0 10 [] (Some [(''a'', JNum 1)]))) \<and>
         length (filter (\<lambda>r. ch_owner r = ''alice'' \<and>
                              passes_metadata [(''a'', JNum 1)] (ch_metadata r) \<and>
                              passes_name [] (ch_name r)) (channels home))
           < Total (fst (cr_RetrieveAll home ''alice'' 0 10 [] (Some [(''a'', JNum 1)])))"
proof -
  have t: "snd (tr_RetrieveAll d owner offset limit nm (Some kvs)) = None \<longrightarrow>
            Total (fst (tr_RetrieveAll d owner offset limit nm (Some kvs)))
              = length (filter (\<lambda>r. dbth_Owner r = owner \<and> passes_name nm (dbth_Name r))
                          (things d)) \<and>
            map thing_ID (Things (fst (tr_RetrieveAll d owner offset limit nm (Some kvs))))
              = map dbth_ID (take limit (drop offset (sort_key dbth_ID
                  (filter (\<lambda>r. dbth_Owner r = owner \<and> passes_metadata kvs (dbth_Metadata r) \<and>
                                passes_name nm (dbth_Name r)) (things d))))) \<and>
            length (filter (\<lambda>r. dbth_Owner r = owner \<and> passes_metadata kvs (dbth_Metadata r) \<and>
                                 passes_name nm (dbth_Name r)) (things d))
              \<le> Total (fst (tr_RetrieveAll d owner offset limit nm (Some kvs)))"
    using tr_RetrieveAll_ok [OF assms]
    by (simp add: length_filter_conj_le)
  have c: "snd (cr_RetrieveAll d owner offset limit nm (Some kvs)) = None \<longrightarrow>
            Total (fst (cr_RetrieveAll d owner offset limit nm (Some kvs)))
              = length (filter (\<lambda>r. ch_owner r = owner \<and> passes_name nm (ch_name r))
                          (channels d)) \<and>
            map channel_ID (Channels (fst (cr_RetrieveAll d owner offset limit nm (Some kvs))))
              = map ch_id (take limit (drop offset (sort_key ch_id
                  (filter (\<lambda>r. ch_owner r = owner \<and> passes_metadata kvs (ch_metadata r) \<and>
                                passes_name nm (ch_name r)) (channels d))))) \<and>
            length (filter (\<lambda>r. ch_owner r = owner \<and> passes_metadata kvs (ch_metadata r) \<and>
                                 passes_name nm (ch_name r)) (channels d))
              \<le> Total (fst (cr_RetrieveAll d owner offset limit nm (Some kvs)))"
    using cr_RetrieveAll_ok [OF assms]
    by (simp add: length_filter_conj_le)
  have ht: "length (filter (\<lambda>r. dbth_Owner r = ''alice'' \<and>
                              passes_metadata [(''a'', JNum 1)] (dbth_Metadata r) \<and>
                              passes_name [] (dbth_Name r)) (things home))
           < Total (fst (tr_RetrieveAll home ''alice'' 0 10 [] (Some [(''a'', JNum 1)])))"
    by (simp add: home_things_page home_things_passing)
  have hc: "length (filter (\<lambda>r. ch_owner r = ''alice'' \<and>
                              passes_metadata [(''a'', JNum 1)] (ch_metadata r) \<and>
                              passes_name [] (ch_name r)) (channels home))
           < Total (fst (cr_RetrieveAll home ''alice'' 0 10 [] (Some [(''a'', JNum 1)])))"
    by (simp add: home_channels_page home_channels_passing)
  have tot: "failing d = None \<and> documents_ok d \<longrightarrow>
            snd (tr_RetrieveAll d owner offset limit nm (Some kvs)) = None \<and>
            snd (cr_RetrieveAll d owner offset limit nm (Some kvs)) = None"
    by (simp add: tr_RetrieveAll_total cr_RetrieveAll_total)
  from t c tot ht hc show ?thesis by blast
qed

lemma home_things_page_named:
  "tr_RetrieveAll home ''alice'' 0 5 ''ROOM'' (Some [(''b'', JStr ''x'')])
     = (\<lparr>Total = 2, Offset = 0, Limit = 5,
         Things = [\<lparr>thing_ID = dbth_ID lamp, thing_Owner = ''alice'', thing_Name = ''Living-Room'',
                    thing_Key = ''key-1'',
                    thing_Metadata = Some [(''a'', JNum 1), (''b'', JStr ''x'')]\<rparr>]\<rparr>, None)"
  by code_simp

theorem retrieve_all_total_witness:
  "[(''b'', JStr ''x'')] \<noteq> [] \<and> failing home = None \<and> documents_ok home \<and>
   snd (tr_RetrieveAll home ''alice'' 0 5 ''ROOM'' (Some [(''b'', JStr ''x'')])) = None \<and>
   Total (fst (tr_RetrieveAll home ''alice'' 0 5 ''ROOM'' (Some [(''b'', JStr ''x'')]))) = 2 \<and>
   length (filter (\<lambda>r. dbth_Owner r = ''alice'' \<and> passes_name ''ROOM'' (dbth_Name r))
             (things home)) = 2 \<and>
   map thing_ID (Things (fst (tr_RetrieveAll home ''alice'' 0 5 ''ROOM'' (Some [(''b'', JStr ''x'')]))))
     = [dbth_ID lamp] \<and>
   snd (cr_RetrieveAll home ''alice'' 0 10 [] (Some [(''a'', JNum 1)])) = None \<and>
   Total (fst (cr_RetrieveAll home ''alice'' 0 10 [] (Some [(''a'', JNum 1)]))) = 2 \<and>
   length (filter (\<lambda>r. ch_owner r = ''alice'' \<and> passes_name [] (ch_name r)) (channels home)) = 2"
proof -
  have k1: "[(''b'', JStr ''x'')] \<noteq> []" by simp
  have k2: "[(''a'', JNum (1::int))] \<noteq> []" by simp
  have p1: "snd (tr_RetrieveAll home ''alice'' 0 5 ''ROOM'' (Some [(''b'', JStr ''x'')])) = None"
    by (simp add: home_things_page_named)
  have p2: "snd (cr_RetrieveAll home ''alice'' 0 10 [] (Some [(''a'', JNum 1)])) = None"
    by (simp add: home_channels_page)
  have p3: "failing home = None" by (simp add: home_def)
  have p4: "documents_ok home" by code_simp
  show ?thesis
    using p1 p2 p3 p4
      retrieve_all_total [OF k1, of home "''alice''" 0 5 "''ROOM''"]
      retrieve_all_total [OF k2, of home "''alice''" 0 10 "[]"]
    by (simp add: home_things_page_named home_channels_page)
qed

section \<open>RetrieveByChannel and RetrieveByThing\<close>

text \<open>
  C4, as the code has it. Whatever strings \<^verbatim>\<open>uuid.FromString\<close> parses, for an identifier
  it rejects \<open>RetrieveByChannel\<close> returns the zero page together with the error
  \<open>ErrNotFound\<close>, in every state of the engine (no statement is run, so no error of the
  engine can come back); and so does \<open>RetrieveByThing\<close>.
\<close>

theorem retrieve_by_rejected_identifier:
  assumes "\<not> FromString ident"
  shows "tr_RetrieveByChannel FromString d owner ident offset limit
           = (empty_ThingsPage, Some ErrNotFound) \<and>
         cr_RetrieveByThing FromString d owner ident offset limit
           = (empty_ChannelsPage, Some ErrNotFound)"
  using assms by (simp add: tr_RetrieveByChannel_def cr_RetrieveByThing_def)

theorem retrieve_by_rejected_identifier_witness:
  "\<not> canonical_uuid ''not-a-uuid'' \<and>
   tr_RetrieveByChannel canonical_uuid (home\<lparr>failing := Some (PqError errInvalid)\<rparr>)
       ''alice'' ''not-a-uuid'' 0 10
     = (empty_ThingsPage, Some ErrNotFound) \<and>
   cr_RetrieveByThing canonical_uuid (home\<lparr>failing := Some (PqError errInvalid)\<rparr>)
       ''alice'' ''not-a-uuid'' 0 10
     = (empty_ChannelsPage, Some ErrNotFound)"
proof -
  have h: "\<not> canonical_uuid ''not-a-uuid''" by (simp add: canonical_uuid_def)
  show ?thesis
    using h retrieve_by_rejected_identifier [of canonical_uuid "''not-a-uuid''", OF h]
    by simp
qed

text \<open>
  C4 as stated fails: for the rejected identifier the method does return an error,
  \<open>ErrNotFound\<close>, not the nil error.
\<close>

theorem retrieve_by_rejected_identifier_counterexample:
  "snd (tr_RetrieveByChannel canonical_uuid home ''alice'' ''not-a-uuid'' 0 10) = Some ErrNotFound \<and>
   snd (cr_RetrieveByThing canonical_uuid home ''alice'' ''not-a-uuid'' 0 10) = Some ErrNotFound"
  by (simp add: tr_RetrieveByChannel_def cr_RetrieveByThing_def canonical_uuid_def)

section \<open>Update and UpdateKey\<close>

lemma update_key_collision:
  assumes "failing d = None"
    and "list_ex (thing_matches (empty_dbThing\<lparr>dbth_ID := ident, dbth_Owner := owner, dbth_Key := k\<rparr>))
           (things d)"
    and "list_ex (\<lambda>r. dbth_Key r = k)
           (filter (\<lambda>r. \<not> thing_matches
                          (empty_dbThing\<lparr>dbth_ID := ident, dbth_Owner := owner, dbth_Key := k\<rparr>) r)
              (things d))"
  shows "tr_UpdateKey d owner ident k = (Some ErrConflict, d)"
proof -
  let ?p = "empty_dbThing\<lparr>dbth_ID := ident, dbth_Owner := owner, dbth_Key := k\<rparr>"
  have "filter (thing_matches ?p) (things d) \<noteq> []"
    using assms(2) by (simp add: filter_empty_conv list_ex_iff)
  with assms(1,3) show ?thesis
    by (simp add: tr_UpdateKey_def exec_healthy update_thing_key_def Let_def
        errInvalid_def errDuplicate_def)
qed

lemma update_key_invalid:
  assumes "NamedExecContext d
             (UpdateThingKey (empty_dbThing\<lparr>dbth_ID := ident, dbth_Owner := owner, dbth_Key := k\<rparr>))
           = (Inl (PqError errInvalid), d')"
  shows "tr_UpdateKey d owner ident k = (Some ErrMalformedEntity, d')"
  using assms by (simp add: tr_UpdateKey_def Let_def)

lemma update_malformed:
  assumes "toDBThing th = (dbth, None)"
    and "NamedExecContext d (UpdateThing dbth) = (Inl (PqError n), d')"
    and "n = errInvalid \<or> n = errTruncation"
  shows "tr_Update d th = (Some ErrMalformedEntity, d')"
  using assms by (auto simp: tr_Update_def)

text \<open>
  C5 at the input the code gets wrong: when the engine answers with a string data right
  truncation, \<open>Update\<close> returns \<open>ErrMalformedEntity\<close> and \<open>UpdateKey\<close> hands the engine's
  error back as it is.
\<close>

theorem update_key_truncation:
  "tr_UpdateKey (home\<lparr>failing := Some (PqError errTruncation)\<rparr>) ''alice'' (dbth_ID lamp) ''key-9''
     = (Some (Raw (PqError errTruncation)), home\<lparr>failing := Some (PqError errTruncation)\<rparr>) \<and>
   tr_Update (home\<lparr>failing := Some (PqError errTruncation)\<rparr>) meter
     = (Some ErrMalformedEntity, home\<lparr>failing := Some (PqError errTruncation)\<rparr>) \<and>
   fst (tr_Save (home\<lparr>failing := Some (PqError errTruncation)\<rparr>) meter)
     = ([], Some ErrMalformedEntity)"
  by (simp add: tr_UpdateKey_def tr_Update_def tr_Save_def toDBThing_def exec_failing Let_def
      errTruncation_def errInvalid_def errDuplicate_def meter_def len_def json_Marshal_def)

section \<open>Remove\<close>

text \<open>
  C6, as the code has it. \<open>Remove\<close> returns no error in every state and for every owner
  and id, for the things and for the channels: when no row matches (the state is then
  left as it was), and also when the engine refuses the statement with an error \<open>e\<close>,
  which is dropped.
\<close>

theorem remove_returns_nil:
  "fst (tr_Remove d owner ident) = None \<and> fst (cr_Remove d owner ident) = None \<and>
   (failing d = Some e \<longrightarrow>
      NamedExecContext d (DeleteThing (empty_dbThing\<lparr>dbth_ID := ident, dbth_Owner := owner\<rparr>))
        = (Inl e, d) \<and>
      tr_Remove d owner ident = (None, d) \<and>
      NamedExecContext d (DeleteChannel (empty_dbChannel\<lparr>dbch_ID := ident, dbch_Owner := owner\<rparr>))
        = (Inl e, d) \<and>
      cr_Remove d owner ident = (None, d)) \<and>
   (failing d = None \<and> \<not> list_ex (\<lambda>r. dbth_ID r = ident \<and> dbth_Owner r = owner) (things d) \<longrightarrow>
      tr_Remove d owner ident = (None, d)) \<and>
   (failing d = None \<and> \<not> list_ex (\<lambda>r. ch_id r = ident \<and> ch_owner r = owner) (channels d) \<longrightarrow>
      cr_Remove d owner ident = (None, d))"
proof -
  have 1: "fst (tr_Remove d owner ident) = None"
    by (simp add: tr_Remove_def Let_def split: prod.splits)
  have 2: "fst (cr_Remove d owner ident) = None"
    by (simp add: cr_Remove_def Let_def split: prod.splits)
  have 3: "failing d = Some e \<longrightarrow>
      NamedExecContext d (DeleteThing (empty_dbThing\<lparr>dbth_ID := ident, dbth_Owner := owner\<rparr>))
        = (Inl e, d) \<and>
      tr_Remove d owner ident = (None, d) \<and>
      NamedExecContext d (DeleteChannel (empty_dbChannel\<lparr>dbch_ID := ident, dbch_Owner := owner\<rparr>))
        = (Inl e, d) \<and>
      cr_Remove d owner ident = (None, d)"
    by (simp add: tr_Remove_def cr_Remove_def Let_def exec_failing)
  have 4: "failing d = None \<and>
        \<not> list_ex (\<lambda>r. dbth_ID r = ident \<and> dbth_Owner r = owner) (things d) \<longrightarrow>
      tr_Remove d owner ident = (None, d)"
  proof
    assume a: "failing d = None \<and>
        \<not> list_ex (\<lambda>r. dbth_ID r = ident \<and> dbth_Owner r = owner) (things d)"
    let ?p = "empty_dbThing\<lparr>dbth_ID := ident, dbth_Owner := owner\<rparr>"
    have e: "filter (thing_matches ?p) (things d) = []"
      using a by (auto simp: filter_empty_conv list_ex_iff thing_matches_def)
    have k: "filter (\<lambda>r. \<not> thing_matches ?p r) (things d) = things d"
      using a by (auto simp: filter_id_conv list_ex_iff thing_matches_def)
    show "tr_Remove d owner ident = (None, d)"
      using a by (simp add: tr_Remove_def Let_def exec_healthy delete_thing_def e k)
  qed
  have 5: "failing d = None \<and> \<not> list_ex (\<lambda>r. ch_id r = ident \<and> ch_owner r = owner) (channels d) \<longrightarrow>
      cr_Remove d owner ident = (None, d)"
  proof
    assume a: "failing d = None \<and>
        \<not> list_ex (\<lambda>r. ch_id r = ident \<and> ch_owner r = owner) (channels d)"
    let ?p = "empty_dbChannel\<lparr>dbch_ID := ident, dbch_Owner := owner\<rparr>"
    have e: "filter (channel_matches ?p) (channels d) = []"
      using a by (auto simp: filter_empty_conv list_ex_iff channel_matches_def)
    have k: "filter (\<lambda>r. \<not> channel_matches ?p r) (channels d) = channels d"
      using a by (auto simp: filter_id_conv list_ex_iff channel_matches_def)
    show "cr_Remove d owner ident = (None, d)"
      using a by (simp add: cr_Remove_def Let_def exec_healthy delete_channel_def e k)
  qed
  from 1 2 3 4 5 show ?thesis by blast
qed

theorem remove_returns_nil_witness:
  "fst (tr_Remove home ''alice'' (thing_ID sensor)) = None \<and>
   tr_Remove home ''alice'' (thing_ID sensor) = (None, home) \<and>
   cr_Remove home ''bob'' (ch_id hall) = (None, home) \<and>
   tr_Remove (home\<lparr>failing := Some (OtherError ''connection refused'')\<rparr>) ''alice'' (dbth_ID lamp)
     = (None, home\<lparr>failing := Some (OtherError ''connection refused'')\<rparr>) \<and>
   cr_Remove (home\<lparr>failing := Some (OtherError ''connection refused'')\<rparr>) ''alice'' (ch_id hall)
     = (None, home\<lparr>failing := Some (OtherError ''connection refused'')\<rparr>)"
proof -
  have a: "failing home = None \<and>
     \<not> list_ex (\<lambda>r. dbth_ID r = thing_ID sensor \<and> dbth_Owner r = ''alice'') (things home)"
    by (simp add: home_def lamp_def fan_def plug_def sensor_def)
  have b: "failing home = None \<and>
     \<not> list_ex (\<lambda>r. ch_id r = ch_id hall \<and> ch_owner r = ''bob'') (channels home)"
    by (simp add: home_def hall_def yard_def shed_def)
  have c: "failing (home\<lparr>failing := Some (OtherError ''connection refused'')\<rparr>)
             = Some (OtherError ''connection refused'')"
    by simp
  show ?thesis
    using a b c
      remove_returns_nil [of home "''alice''" "thing_ID sensor"]
      remove_returns_nil [of home "''bob''" "ch_id hall"]
      remove_returns_nil [of "home\<lparr>failing := Some (OtherError ''connection refused'')\<rparr>"
        "''alice''" "dbth_ID lamp" "OtherError ''connection refused''"]
      remove_returns_nil [of "home\<lparr>failing := Some (OtherError ''connection refused'')\<rparr>"
        "''alice''" "ch_id hall" "OtherError ''connection refused''"]
    by simp
qed

text \<open>
  C6 as stated fails: the engine refuses the delete with an error, and \<open>Remove\<close> returns
  nil instead of that error.
\<close>

theorem remove_returns_nil_counterexample:
  "NamedExecContext (home\<lparr>failing := Some (OtherError ''connection refused'')\<rparr>)
     (DeleteThing (empty_dbThing\<lparr>dbth_ID := dbth_ID lamp, dbth_Owner := ''alice''\<rparr>))
     = (Inl (OtherError ''connection refused''),
        home\<lparr>failing := Some (OtherError ''connection refused'')\<rparr>) \<and>
   fst (tr_Remove (home\<lparr>failing := Some (OtherError ''connection refused'')\<rparr>)
          ''alice'' (dbth_ID lamp)) = None \<and>
   fst (cr_Remove (home\<lparr>failing := Some (OtherError ''connection refused'')\<rparr>)
          ''alice'' (ch_id hall)) = None"
  by (simp add: tr_Remove_def cr_Remove_def Let_def exec_failing)

section \<open>Save and RetrieveByID\<close>







section \<open>Errors of Save, HasThing and RetrieveByKey\<close>

lemma cr_Save_error:
  assumes "NamedExecContext d (InsertChannel (toDBChannel ch)) = (Inl err, d')"
  shows "cr_Save d ch =
           (([], Some (if err = PqError errInvalid \<or> err = PqError errTruncation
                       then ErrMalformedEntity else Raw err)), d')"
  using assms by (cases err) (auto simp: cr_Save_def Let_def)

lemma cr_Save_duplicate:
  assumes "failing d = None" and "channel_exists d (channel_ID ch)"
  shows "cr_Save d ch = (([], Some (Raw (PqError errDuplicate))), d)"
proof -
  have "NamedExecContext d (InsertChannel (toDBChannel ch)) = (Inl (PqError errDuplicate), d)"
    using assms
    by (simp add: exec_healthy insert_channel_def dbMetadata_Value_def json_Marshal_def
        channel_exists_def toDBChannel_def split: option.splits)
  then have "cr_Save d ch =
           (([], Some (if PqError errDuplicate = PqError errInvalid \<or>
                          PqError errDuplicate = PqError errTruncation
                       then ErrMalformedEntity else Raw (PqError errDuplicate))), d)"
    by (rule cr_Save_error)
  then show ?thesis
    by (simp add: errDuplicate_def errInvalid_def errTruncation_def)
qed

lemma tr_Save_duplicate:
  assumes "failing d = None"
    and "list_ex (\<lambda>r. dbth_ID r = thing_ID th \<or> dbth_Key r = thing_Key th) (things d)"
  shows "tr_Save d th = (([], Some ErrConflict), d)"
  using assms
  by (simp add: tr_Save_def toDBThing_fields exec_healthy insert_thing_def
      errDuplicate_def errInvalid_def errTruncation_def)

text \<open>
  C8. Whenever the engine answers the insert of \<open>Save\<close> of a channel with an error, the
  method returns \<open>ErrMalformedEntity\<close> if the error is an invalid text representation or
  a string data right truncation, and otherwise the engine's error as it is. So, the
  engine running the statements, \<open>Save\<close> of a channel whose id is already there returns
  the engine's unique violation, while \<open>Save\<close> of a thing whose id or key is already
  there returns \<open>ErrConflict\<close>.
\<close>

theorem channel_save_errors:
  "(NamedExecContext d (InsertChannel (toDBChannel ch)) = (Inl err, d') \<longrightarrow>
      cr_Save d ch =
        (([], Some (if err = PqError errInvalid \<or> err = PqError errTruncation
                    then ErrMalformedEntity else Raw err)), d')) \<and>
   (failing d = None \<and> channel_exists d (channel_ID ch) \<longrightarrow>
      cr_Save d ch = (([], Some (Raw (PqError errDuplicate))), d)) \<and>
   (failing d = None \<and>
    list_ex (\<lambda>r. dbth_ID r = thing_ID th \<or> dbth_Key r = thing_Key th) (things d) \<longrightarrow>
      tr_Save d th = (([], Some ErrConflict), d))"
  using cr_Save_error cr_Save_duplicate tr_Save_duplicate by blast

theorem channel_save_errors_witness:
  "failing home = None \<and> channel_exists home (ch_id hall) \<and>
   cr_Save home \<lparr>channel_ID = ch_id hall, channel_Owner = ''alice'', channel_Name = ''Attic'',
                 channel_Metadata = None\<rparr>
     = (([], Some (Raw (PqError ''unique_violation''))), home) \<and>
   list_ex (\<lambda>r. dbth_ID r = thing_ID sensor \<or> dbth_Key r = ''key-1'') (things home) \<and>
   tr_Save home (sensor\<lparr>thing_Key := ''key-1''\<rparr>) = (([], Some ErrConflict), home) \<and>
   cr_Save (home\<lparr>failing := Some (PqError ''string_data_right_truncation'')\<rparr>)
       \<lparr>channel_ID = ch_id hall, channel_Owner = ''alice'', channel_Name = ''Attic'',
        channel_Metadata = None\<rparr>
     = (([], Some ErrMalformedEntity),
        home\<lparr>failing := Some (PqError ''string_data_right_truncation'')\<rparr>)"
proof -
  let ?attic = "\<lparr>channel_ID = ch_id hall, channel_Owner = ''alice'', channel_Name = ''Attic'',
                 channel_Metadata = None\<rparr>"
  let ?bad = "home\<lparr>failing := Some (PqError ''string_data_right_truncation'')\<rparr>"
  have h1: "failing home = None" by (simp add: home_def)
  have h2: "channel_exists home (ch_id hall)" by (simp add: home_def channel_exists_def)
  have h3: "list_ex (\<lambda>r. dbth_ID r = thing_ID sensor \<or> dbth_Key r = ''key-1'') (things home)"
    by (simp add: home_def lamp_def)
  have h4: "NamedExecContext ?bad (InsertChannel (toDBChannel ?attic))
              = (Inl (PqError ''string_data_right_truncation''), ?bad)"
    by (simp add: exec_failing)
  show ?thesis
    using h1 h2 h3 h4
      channel_save_errors [of home ?attic _ _ "sensor\<lparr>thing_Key := ''key-1''\<rparr>"]
      channel_save_errors [of ?bad ?attic "PqError ''string_data_right_truncation''" ?bad
        "sensor\<lparr>thing_Key := ''key-1''\<rparr>"]
    by (simp add: errDuplicate_def errTruncation_def errInvalid_def)
qed

lemma has_thing_lookup_error:
  assumes "select_thing_id d k = Inl err"
  shows "cr_HasThing d chanID k = ([], Some (Raw err))"
  using assms by (simp add: cr_HasThing_def)

text \<open>
  C9. The engine running the statements, for a key that no thing has \<open>HasThing\<close> returns
  the engine's no-rows error as it is, where \<open>RetrieveByKey\<close> returns \<open>ErrNotFound\<close>.
\<close>

theorem has_thing_unknown_key:
  assumes "failing d = None" and "\<not> list_ex (\<lambda>r. dbth_Key r = k) (things d)"
  shows "cr_HasThing d chanID k = ([], Some (Raw ErrNoRows)) \<and>
         tr_RetrieveByKey d k = ([], Some ErrNotFound)"
proof -
  have "filter (\<lambda>r. dbth_Key r = k) (things d) = []"
    using assms(2) by (simp add: filter_empty_conv list_ex_iff)
  with assms(1) have "select_thing_id d k = Inl ErrNoRows"
    by (simp add: select_thing_id_def query_row_def first_row_def)
  then show ?thesis
    by (simp add: cr_HasThing_def tr_RetrieveByKey_def)
qed

theorem has_thing_unknown_key_witness:
  "failing home = None \<and> \<not> list_ex (\<lambda>r. dbth_Key r = ''key-0'') (things home) \<and>
   cr_HasThing home (ch_id hall) ''key-0'' = ([], Some (Raw ErrNoRows)) \<and>
   tr_RetrieveByKey home ''key-0'' = ([], Some ErrNotFound)"
proof -
  have h1: "failing home = None" by (simp add: home_def)
  have h2: "\<not> list_ex (\<lambda>r. dbth_Key r = ''key-0'') (things home)"
    by (simp add: home_def lamp_def fan_def plug_def)
  show ?thesis
    using h1 h2 has_thing_unknown_key [OF h1 h2, of "ch_id hall"] by simp
qed

section \<open>The owners of a connection\<close>

lemma exec_connections:
  "set (connections (snd (NamedExecContext d s)))
     \<subseteq> set (connections d) \<union>
       (case s of
          InsertConnection c \<Rightarrow>
            {\<lparr>channel_id = conn_Channel c, channel_owner = conn_Owner c,
              thing_id = conn_Thing c, thing_owner = conn_Owner c\<rparr>}
        | _ \<Rightarrow> {})"
proof (cases "failing d")
  case (Some e)
  then show ?thesis by (simp add: exec_failing)
next
  case None
  show ?thesis
  proof (cases s)
    case (InsertThing t)
    with None show ?thesis by (simp add: exec_healthy insert_thing_def)
  next
    case (UpdateThing t)
    with None show ?thesis by (simp add: exec_healthy update_thing_def)
  next
    case (UpdateThingKey t)
    with None show ?thesis by (simp add: exec_healthy update_thing_key_def Let_def)
  next
    case (DeleteThing t)
    with None show ?thesis by (auto simp: exec_healthy delete_thing_def Let_def)
  next
    case (InsertChannel c)
    with None show ?thesis
      by (simp add: exec_healthy insert_channel_def split: sum.splits)
  next
    case (UpdateChannel c)
    with None show ?thesis
      by (simp add: exec_healthy update_channel_def split: sum.splits)
  next
    case (DeleteChannel c)
    with None show ?thesis by (auto simp: exec_healthy delete_channel_def Let_def)
  next
    case (InsertConnection c)
    with None show ?thesis by (auto simp: exec_healthy insert_connection_def)
  next
    case (DeleteConnection c)
    with None show ?thesis by (auto simp: exec_healthy delete_connection_def)
  qed
qed

lemma connect_rows:
  "set (connections (snd (cr_Connect d owner chanID thingID)))
     \<subseteq> set (connections d) \<union>
       {\<lparr>channel_id = chanID, channel_owner = owner, thing_id = thingID, thing_owner = owner\<rparr>}"
  using exec_connections [of d
      "InsertConnection \<lparr>conn_Channel = chanID, conn_Thing = thingID, conn_Owner = owner\<rparr>"]
  by (simp add: cr_Connect_state)

lemma perform_rows:
  "set (connections (perform d op))
     \<subseteq> set (connections d) \<union>
       (case op of
          Connect owner chanID thingID \<Rightarrow>
            {\<lparr>channel_id = chanID, channel_owner = owner, thing_id = thingID,
              thing_owner = owner\<rparr>}
        | _ \<Rightarrow> {})"
proof (cases op)
  case (ThingSave th)
  then show ?thesis
    using tr_Save_state [of d th] exec_connections [of d "InsertThing (fst (toDBThing th))"]
    by auto
next
  case (ThingUpdate th)
  then show ?thesis
    using tr_Update_state [of d th] exec_connections [of d "UpdateThing (fst (toDBThing th))"]
    by auto
next
  case (ThingUpdateKey owner ident k)
  then show ?thesis
    using exec_connections [of d
        "UpdateThingKey (empty_dbThing\<lparr>dbth_ID := ident, dbth_Owner := owner, dbth_Key := k\<rparr>)"]
    by (simp add: tr_UpdateKey_state)
next
  case (ThingRemove owner ident)
  then show ?thesis
    using exec_connections [of d
        "DeleteThing (empty_dbThing\<lparr>dbth_ID := ident, dbth_Owner := owner\<rparr>)"]
    by (simp add: tr_Remove_state)
next
  case (ChannelSave ch)
  then show ?thesis
    using exec_connections [of d "InsertChannel (toDBChannel ch)"]
    by (simp add: cr_Save_state)
next
  case (ChannelUpdate ch)
  then show ?thesis
    using exec_connections [of d "UpdateChannel (toDBChannel ch)"]
    by (simp add: cr_Update_state)
next
  case (ChannelRemove owner ident)
  then show ?thesis
    using exec_connections [of d
        "DeleteChannel (empty_dbChannel\<lparr>dbch_ID := ident, dbch_Owner := owner\<rparr>)"]
    by (simp add: cr_Remove_state)
next
  case (Connect owner chanID thingID)
  then show ?thesis
    using connect_rows [of d owner chanID thingID] by simp
next
  case (Disconnect owner chanID thingID)
  then show ?thesis
    using exec_connections [of d
        "DeleteConnection \<lparr>conn_Channel = chanID, conn_Thing = thingID, conn_Owner = owner\<rparr>"]
    by (simp add: cr_Disconnect_state)
qed

lemma owners_agree_perform:
  assumes "owners_agree d"
  shows "owners_agree (perform d op)"
  using assms perform_rows [of d op]
  unfolding owners_agree_def list_all_iff
  by (cases op) auto

lemma owners_agree_foldl:
  "owners_agree d \<Longrightarrow> owners_agree (foldl perform d ops)"
  by (induction ops arbitrary: d) (simp_all add: owners_agree_perform)

lemma disconnect_state:
  "snd (cr_Disconnect d owner chanID thingID) = d \<or>
   connections (snd (cr_Disconnect d owner chanID thingID))
     = filter (\<lambda>r. \<not> connection_matches
                       \<lparr>conn_Channel = chanID, conn_Thing = thingID, conn_Owner = owner\<rparr> r)
         (connections d)"
  by (cases "failing d")
    (simp_all add: cr_Disconnect_state exec_healthy exec_failing delete_connection_def)

lemma disconnect_rows:
  assumes "r \<in> set (connections d)"
    and "r \<notin> set (connections (snd (cr_Disconnect d owner chanID thingID)))"
  shows "channel_id r = chanID \<and> thing_id r = thingID \<and>
         channel_owner r = owner \<and> thing_owner r = owner"
  using assms disconnect_state [of d owner chanID thingID]
  by (auto simp: connection_matches_def)

text \<open>
  C10. A row that \<open>Connect\<close> adds to the connections is the row of its channel id and
  thing id with the owner argument in both owner columns. That the two owner columns of
  every connection agree is kept by every method that writes, so it holds after every
  sequence of such calls, from any state in which it holds and from the empty database.
  A row that \<open>Disconnect\<close> removes has the caller's owner in both owner columns.
\<close>

theorem owners_agree_invariant:
  "(\<forall>r \<in> set (connections (snd (cr_Connect d owner chanID thingID))).
      r \<in> set (connections d) \<or>
      r = \<lparr>channel_id = chanID, channel_owner = owner, thing_id = thingID, thing_owner = owner\<rparr>) \<and>
   (owners_agree d \<longrightarrow> owners_agree (perform d op)) \<and>
   (owners_agree d \<longrightarrow> owners_agree (foldl perform d ops)) \<and>
   owners_agree (foldl perform empty_db ops) \<and>
   (\<forall>r \<in> set (connections d).
      r \<in> set (connections (snd (cr_Disconnect d owner chanID thingID))) \<or>
      (channel_owner r = owner \<and> thing_owner r = owner))"
proof -
  have 1: "\<forall>r \<in> set (connections (snd (cr_Connect d owner chanID thingID))).
      r \<in> set (connections d) \<or>
      r = \<lparr>channel_id = chanID, channel_owner = owner, thing_id = thingID, thing_owner = owner\<rparr>"
    using connect_rows [of d owner chanID thingID] by auto
  have 2: "owners_agree empty_db" by (simp add: owners_agree_def empty_db_def)
  have 3: "\<forall>r \<in> set (connections d).
      r \<in> set (connections (snd (cr_Disconnect d owner chanID thingID))) \<or>
      (channel_owner r = owner \<and> thing_owner r = owner)"
    using disconnect_rows [of _ d owner chanID thingID] by blast
  from 1 2 3 show ?thesis
    by (simp add: owners_agree_perform owners_agree_foldl)
qed

lemma home_session:
  "connections (foldl perform home
     [Connect ''alice'' (ch_id hall) (dbth_ID lamp), Connect ''bob'' (ch_id shed) (dbth_ID plug),
      Connect ''alice'' (ch_id hall) (dbth_ID fan), Disconnect ''alice'' (ch_id shed) (dbth_ID plug),
      ThingRemove ''alice'' (dbth_ID lamp)])
   = [\<lparr>channel_id = ch_id shed, channel_owner = ''bob'', thing_id = dbth_ID plug,
       thing_owner = ''bob''\<rparr>,
      \<lparr>channel_id = ch_id hall, channel_owner = ''alice'', thing_id = dbth_ID fan,
       thing_owner = ''alice''\<rparr>]"
  by code_simp

lemma home_disconnect:
  "cr_Disconnect
     (home\<lparr>connections := [\<lparr>channel_id = ch_id shed, channel_owner = ''bob'',
                               thing_id = dbth_ID plug, thing_owner = ''bob''\<rparr>]\<rparr>)
     ''alice'' (ch_id shed) (dbth_ID plug)
   = (Some ErrNotFound,
      home\<lparr>connections := [\<lparr>channel_id = ch_id shed, channel_owner = ''bob'',
                               thing_id = dbth_ID plug, thing_owner = ''bob''\<rparr>]\<rparr>)"
  by code_simp

theorem owners_agree_invariant_witness:
  "owners_agree home \<and>
   owners_agree (perform home (Connect ''alice'' (ch_id hall) (dbth_ID lamp))) \<and>
   connections (perform home (Connect ''alice'' (ch_id hall) (dbth_ID lamp)))
     = [\<lparr>channel_id = ch_id hall, channel_owner = ''alice'', thing_id = dbth_ID lamp,
         thing_owner = ''alice''\<rparr>] \<and>
   owners_agree (foldl perform home
     [Connect ''alice'' (ch_id hall) (dbth_ID lamp), Connect ''bob'' (ch_id shed) (dbth_ID plug),
      Connect ''alice'' (ch_id hall) (dbth_ID fan), Disconnect ''alice'' (ch_id shed) (dbth_ID plug),
      ThingRemove ''alice'' (dbth_ID lamp)]) \<and>
   connections (foldl perform home
     [Connect ''alice'' (ch_id hall) (dbth_ID lamp), Connect ''bob'' (ch_id shed) (dbth_ID plug),
      Connect ''alice'' (ch_id hall) (dbth_ID fan), Disconnect ''alice'' (ch_id shed) (dbth_ID plug),
      ThingRemove ''alice'' (dbth_ID lamp)])
   = [\<lparr>channel_id = ch_id shed, channel_owner = ''bob'', thing_id = dbth_ID plug,
       thing_owner = ''bob''\<rparr>,
      \<lparr>channel_id = ch_id hall, channel_owner = ''alice'', thing_id = dbth_ID fan,
       thing_owner = ''alice''\<rparr>] \<and>
   fst (cr_Disconnect
     (home\<lparr>connections := [\<lparr>channel_id = ch_id shed, channel_owner = ''bob'',
                               thing_id = dbth_ID plug, thing_owner = ''bob''\<rparr>]\<rparr>)
     ''alice'' (ch_id shed) (dbth_ID plug)) = Some ErrNotFound"
proof -
  have h: "owners_agree home" by (simp add: owners_agree_def home_def)
  have c: "connections (perform home (Connect ''alice'' (ch_id hall) (dbth_ID lamp)))
     = [\<lparr>channel_id = ch_id hall, channel_owner = ''alice'', thing_id = dbth_ID lamp,
         thing_owner = ''alice''\<rparr>]"
    by code_simp
  show ?thesis
    using h c home_session home_disconnect
      owners_agree_invariant [of home "''alice''" "ch_id hall" "dbth_ID lamp"
        "Connect ''alice'' (ch_id hall) (dbth_ID lamp)"
        "[Connect ''alice'' (ch_id hall) (dbth_ID lamp), Connect ''bob'' (ch_id shed) (dbth_ID plug),
          Connect ''alice'' (ch_id hall) (dbth_ID fan),
          Disconnect ''alice'' (ch_id shed) (dbth_ID plug),
          ThingRemove ''alice'' (dbth_ID lamp)]"]
    by simp
qed

end
